theory Spec2Isabelle
  imports Complex_Main "HOL-Library.Sublist"
begin

chapter \<open>The model\<close>

section \<open>Python values and dictionaries\<close>

text \<open>
  Tender records travel through the pipeline as Python dictionaries
  (\<^verbatim>\<open>tender_data: Dict\<close>). A dictionary is modelled as an association list with
  the keys in insertion order; \<^verbatim>\<open>d.get(k, default)\<close> is \<open>dget\<close>. The values
  that occur in tender records are \<^verbatim>\<open>None\<close>, booleans, strings, numbers (the
  monetary amount, a float or the integer 0), naive datetimes (microseconds since the
  epoch) and lists of strings. Strings are lists of 8-bit characters, read as Latin-1 code
  points. The pandas value \<^verbatim>\<open>NaT\<close>, which the date parsers can return for a text no
  format matches, is not a value of the model.
\<close>

datatype pyval =
    PNone
  | PBool bool
  | PStr string
  | PNum real
  | PDate int
  | PList "string list"

type_synonym pydict = "(string \<times> pyval) list"

definition dget :: "pydict \<Rightarrow> string \<Rightarrow> pyval \<Rightarrow> pyval" where
  "dget d k dflt = (case map_of d k of None \<Rightarrow> dflt | Some v \<Rightarrow> v)"

text \<open>Truthiness, as \<^verbatim>\<open>not x\<close> and \<^verbatim>\<open>x or y\<close> read it.\<close>

fun truthy :: "pyval \<Rightarrow> bool" where
  "truthy PNone = False"
| "truthy (PBool b) = b"
| "truthy (PStr s) = (s \<noteq> [])"
| "truthy (PNum r) = (r \<noteq> 0)"
| "truthy (PDate d) = True"
| "truthy (PList xs) = (xs \<noteq> [])"

section \<open>Prioritizer\<close>

text \<open>
  Exceptions are values: a function that can raise returns \<open>py_error + 'a\<close> with the
  exception on the left.
\<close>

datatype py_error = TypeError | IntegrityError | HTTPException nat | Raised string

text \<open>
  \<^verbatim>\<open>a or b\<close> on conditions that may raise: \<open>b\<close> is consulted only when \<open>a\<close> is
  false, and an exception in \<open>a\<close> wins.
\<close>

fun por :: "py_error + bool \<Rightarrow> py_error + bool \<Rightarrow> py_error + bool" where
  "por (Inl e) b = Inl e"
| "por (Inr c) b = (if c then Inr True else b)"

text \<open>\<^verbatim>\<open>x > c\<close> for a numeric constant \<open>c\<close>: defined on numbers (a bool is an int).\<close>

fun py_gt :: "pyval \<Rightarrow> real \<Rightarrow> py_error + bool" where
  "py_gt (PNum r) c = Inr (r > c)"
| "py_gt (PBool b) c = Inr ((if b then 1 else 0) > c)"
| "py_gt _ c = Inl TypeError"

text \<open>\<^verbatim>\<open>len(x) >= n\<close>: defined on lists and strings.\<close>

fun len_ge :: "pyval \<Rightarrow> nat \<Rightarrow> py_error + bool" where
  "len_ge (PList xs) n = Inr (n \<le> length xs)"
| "len_ge (PStr s) n = Inr (n \<le> length s)"
| "len_ge _ n = Inl TypeError"

definition usec_per_day :: int where
  "usec_per_day = 86400 * 1000000"

text \<open>
  \<^verbatim>\<open>(closing_date - datetime.utcnow()).days\<close>: a \<^verbatim>\<open>timedelta\<close> is normalised so
  that \<^verbatim>\<open>.days\<close> is the floor of the difference in days; subtracting a datetime
  from anything but a datetime raises.
\<close>

fun days_until :: "pyval \<Rightarrow> int \<Rightarrow> py_error + int" where
  "days_until (PDate d) now = Inr ((d - now) div usec_per_day)"
| "days_until _ now = Inl TypeError"

text \<open>\<^verbatim>\<open>TenderMatcher.calculate_priority\<close>; \<open>now\<close> is \<^verbatim>\<open>datetime.utcnow()\<close>.\<close>

definition calculate_priority :: "int \<Rightarrow> pydict \<Rightarrow> py_error + string" where
  "calculate_priority now tender =
    (let amount = dget tender ''value'' (PNum 0);
         closing_date = dget tender ''closing_date'' PNone;
         matching_courses = dget tender ''matching_courses'' (PList []);
         categories = dget tender ''categories'' (PList [])
     in if \<not> truthy closing_date then Inr ''low''
        else case days_until closing_date now of
          Inl e \<Rightarrow> Inl e
        | Inr days_until_closing \<Rightarrow>
            (case por (py_gt amount 1000000)
                   (por (Inr (days_until_closing < 7))
                     (por (len_ge matching_courses 3) (len_ge categories 2))) of
               Inl e \<Rightarrow> Inl e
             | Inr is_high \<Rightarrow>
                 if is_high then Inr ''high''
                 else (case por (py_gt amount 500000)
                        (por (Inr (days_until_closing < 14)) (len_ge matching_courses 1)) of
                    Inl e \<Rightarrow> Inl e
                  | Inr is_medium \<Rightarrow> if is_medium then Inr ''medium'' else Inr ''low'')))"

section \<open>Classifier\<close>

text \<open>
  \<^verbatim>\<open>str.lower()\<close> on Latin-1 text: the letters A-Z and the accented capitals
  U+00C0-U+00DE (but not the multiplication sign U+00D7) move up by 32.
\<close>

definition lower_char :: "char \<Rightarrow> char" where
  "lower_char c =
    (let n = (of_char c :: int)
     in if (65 \<le> n \<and> n \<le> 90) \<or> (192 \<le> n \<and> n \<le> 222 \<and> n \<noteq> 215)
        then char_of (n + 32) else c)"

definition lower :: "string \<Rightarrow> string" where
  "lower s = map lower_char s"

text \<open>
  The taxonomy \<^verbatim>\<open>TKA_COURSES\<close>: category, keyword list and course list, in the
  order the source lists them (a dict iterates in insertion order). Python's
  \<^verbatim>\<open>keyword in text\<close> on strings is \<^const>\<open>sublist\<close>.
\<close>

record course_config =
  config_keywords :: "string list"
  config_courses :: "string list"

definition TKA_COURSES :: "(string \<times> course_config) list" where
  "TKA_COURSES =
   [
    (''project-management'',
     \<lparr>config_keywords =
        [''prince2'', ''pmp'', ''project management'', ''capm'', ''msp'', ''portfolio'',
         ''program management'', ''pmo'', ''agile project'', ''pmbok'', ''pmi''],
      config_courses =
        [''PRINCE2 Foundation'', ''PRINCE2 Practitioner'', ''PRINCE2 Agile'',
         ''PMP Certification'', ''CAPM'', ''MSP'', ''Portfolio Management'',
         ''Program Management'']\<rparr>),
    (''it-technical'',
     \<lparr>config_keywords =
        [''itil'', ''cloud'', ''aws'', ''azure'', ''devops'', ''docker'', ''kubernetes'',
         ''linux'', ''python'', ''java'', ''database'', ''sql'', ''cisco'', ''vmware'',
         ''microsoft'', ''oracle'', ''sap''],
      config_courses =
        [''ITIL 4 Foundation'', ''AWS Solutions Architect'', ''Azure Fundamentals'',
         ''DevOps Certification'', ''Linux Administration'', ''Python Programming'',
         ''Java Development'']\<rparr>),
    (''cybersecurity'',
     \<lparr>config_keywords =
        [''security'', ''cyber'', ''cissp'', ''ethical hacking'', ''penetration'',
         ''iso 27001'', ''gdpr'', ''ceh'', ''comptia security'', ''firewall'', ''soc'',
         ''siem'', ''incident response''],
      config_courses =
        [''CISSP Certification'', ''Ethical Hacking'', ''ISO 27001'',
         ''Security Awareness'', ''CompTIA Security+'', ''CEH'', ''Penetration Testing'']\<rparr>),
    (''agile-scrum'',
     \<lparr>config_keywords =
        [''agile'', ''scrum'', ''safe'', ''kanban'', ''sprint'', ''product owner'',
         ''scrum master'', ''lean'', ''jira'', ''confluence'', ''retrospective'',
         ''backlog''],
      config_courses =
        [''Scrum Master Certification'', ''Product Owner Certification'', ''SAFe Agilist'',
         ''Agile Coach'', ''Kanban Training'']\<rparr>),
    (''leadership'',
     \<lparr>config_keywords =
        [''leadership'', ''management'', ''executive'', ''coaching'',
         ''change management'', ''transformation'', ''strategic'', ''team building'',
         ''communication'', ''stakeholder''],
      config_courses =
        [''Leadership Excellence'', ''Executive Coaching'', ''Change Management'',
         ''Strategic Leadership'', ''Team Leadership'']\<rparr>),
    (''data-analytics'',
     \<lparr>config_keywords =
        [''data'', ''analytics'', ''power bi'', ''tableau'', ''excel'',
         ''business intelligence'', ''visualization'', ''reporting'', ''dashboard'',
         ''kpi'', ''metrics'', ''sql''],
      config_courses =
        [''Power BI Training'', ''Tableau Certification'', ''Advanced Excel'',
         ''Data Analytics'', ''Business Intelligence'', ''SQL for Analytics'']\<rparr>),
    (''soft-skills'',
     \<lparr>config_keywords =
        [''communication'', ''presentation'', ''negotiation'', ''time management'',
         ''emotional intelligence'', ''conflict'', ''teamwork'', ''public speaking'',
         ''writing''],
      config_courses =
        [''Presentation Skills'', ''Negotiation Skills'', ''Time Management'',
         ''Business Communication'', ''Emotional Intelligence'', ''Conflict Resolution'']\<rparr>),
    (''compliance'',
     \<lparr>config_keywords =
        [''compliance'', ''audit'', ''risk management'', ''governance'', ''quality'',
         ''iso'', ''regulatory'', ''health safety'', ''privacy'', ''sox'', ''grc''],
      config_courses =
        [''ISO 9001'', ''Risk Management'', ''Compliance Training'', ''Internal Auditor'',
         ''Health & Safety'', ''GDPR Compliance'']\<rparr>)
   ]"

text \<open>\<^verbatim>\<open>sum(1 for keyword in config['keywords'] if keyword in text_lower)\<close>\<close>

definition count_matches :: "string list \<Rightarrow> string \<Rightarrow> nat" where
  "count_matches kws text_lower = length (filter (\<lambda>keyword. sublist keyword text_lower) kws)"

text \<open>The loop of \<^verbatim>\<open>_extract_categories_from_text\<close> over the taxonomy's items.\<close>

fun categories_loop :: "(string \<times> course_config) list \<Rightarrow> string \<Rightarrow> string list" where
  "categories_loop [] text_lower = []"
| "categories_loop ((category, config) # rest) text_lower =
     (if 2 \<le> count_matches (config_keywords config) text_lower
      then category # categories_loop rest text_lower
      else categories_loop rest text_lower)"

definition extract_categories_from_text :: "string \<Rightarrow> string list" where
  "extract_categories_from_text txt = categories_loop TKA_COURSES (lower txt)"

section \<open>Reconciliation store\<close>

text \<open>
  Library functions of the Python runtime are parameters of the model:
  \<open>md5_json d\<close> is
  \<^verbatim>\<open>hashlib.md5(json.dumps(d, sort_keys=True, default=str).encode()).hexdigest()\<close>,
  \<open>dumps v\<close> is \<^verbatim>\<open>json.dumps(v)\<close> where it succeeds, \<open>str_of v\<close> is the text an
  f-string gives a number, a datetime or a list, and \<open>parse_date s\<close> is the datetime
  (or \<^verbatim>\<open>None\<close>) that \<^verbatim>\<open>strptime\<close> over the list of formats, then pandas, read
  from a non-empty text.
\<close>

record pylib =
  md5_json :: "pydict \<Rightarrow> string"
  dumps :: "pyval \<Rightarrow> string"
  str_of :: "pyval \<Rightarrow> string"
  parse_date :: "string \<Rightarrow> pyval"

text \<open>Formatting in an f-string.\<close>

definition py_str :: "pylib \<Rightarrow> pyval \<Rightarrow> string" where
  "py_str L v =
    (case v of
       PStr s \<Rightarrow> s
     | PNone \<Rightarrow> ''None''
     | PBool b \<Rightarrow> (if b then ''True'' else ''False'')
     | _ \<Rightarrow> str_of L v)"

text \<open>\<^verbatim>\<open>json.dumps(v)\<close> without \<^verbatim>\<open>default=\<close>: a datetime is not serialisable.\<close>

definition json_dumps :: "pylib \<Rightarrow> pyval \<Rightarrow> py_error + string" where
  "json_dumps L v = (case v of PDate d \<Rightarrow> Inl TypeError | _ \<Rightarrow> Inr (dumps L v))"

text \<open>
  A row of the table \<^verbatim>\<open>tenders\<close> (class \<^verbatim>\<open>Tender\<close>) gives every column a value,
  \<open>PNone\<close> for NULL. The table is the list of its rows. The schema declares
  \<^verbatim>\<open>id\<close> the primary key and \<^verbatim>\<open>tender_id\<close> unique; a commit that would break
  either raises \<^verbatim>\<open>IntegrityError\<close>. Other database errors (column types, lost
  connections) are not modelled.
\<close>

type_synonym row = "string \<Rightarrow> pyval"

definition columns :: "string list" where
  "columns =
     [''id'', ''tender_id'', ''title'', ''organization'', ''portal'', ''portal_url'', ''value'',
      ''closing_date'', ''posted_date'', ''description'', ''location'', ''categories'',
      ''keywords'', ''contact_email'', ''contact_phone'', ''tender_url'', ''documents_url'',
      ''last_updated'', ''is_active'', ''hash'', ''priority'', ''matching_courses'',
      ''download_count'', ''attachments'']"

definition json_fields :: "string list" where
  "json_fields = [''categories'', ''keywords'', ''matching_courses'', ''attachments'']"

definition constraints_ok :: "row list \<Rightarrow> bool" where
  "constraints_ok db \<longleftrightarrow>
     distinct (map (\<lambda>r. r ''id'') db) \<and> PNone \<notin> set (map (\<lambda>r. r ''id'') db) \<and>
     distinct (filter (\<lambda>v. v \<noteq> PNone) (map (\<lambda>r. r ''tender_id'') db))"

definition commit :: "row list \<Rightarrow> py_error + row list" where
  "commit db' = (if constraints_ok db' then Inr db' else Inl IntegrityError)"

text \<open>
  \<^verbatim>\<open>setattr(existing_tender, key, value)\<close>: an attribute that is no column is not
  persisted.
\<close>

definition setattr :: "row \<Rightarrow> string \<Rightarrow> pyval \<Rightarrow> row" where
  "setattr r key v = (if key \<in> set columns then r(key := v) else r)"

text \<open>
  The update loop \<^verbatim>\<open>for key, value in tender_data.items()\<close>: the JSON fields are
  stored as \<^verbatim>\<open>json.dumps(value or [])\<close>, every other key as it is.
\<close>

fun set_attrs :: "pylib \<Rightarrow> pydict \<Rightarrow> row \<Rightarrow> py_error + row" where
  "set_attrs L [] r = Inr r"
| "set_attrs L ((key, v) # items) r =
     (if key \<in> set json_fields
      then (case json_dumps L (if truthy v then v else PList []) of
              Inl e \<Rightarrow> Inl e
            | Inr s \<Rightarrow> set_attrs L items (setattr r key (PStr s)))
      else set_attrs L items (setattr r key v))"

text \<open>The row written back in place of the first row that satisfies \<open>P\<close>.\<close>

fun replace_first :: "(row \<Rightarrow> bool) \<Rightarrow> row \<Rightarrow> row list \<Rightarrow> row list" where
  "replace_first P r' [] = []"
| "replace_first P r' (r # rs) = (if P r then r' # rs else r # replace_first P r' rs)"

text \<open>The primary key \<^verbatim>\<open>f"{tender_data.get('portal', 'unknown')}_{tender_id}"\<close>.\<close>

definition primary_key :: "pylib \<Rightarrow> pydict \<Rightarrow> string" where
  "primary_key L tender_data =
     py_str L (dget tender_data ''portal'' (PStr ''unknown'')) @ ''_'' @
     py_str L (dget tender_data ''tender_id'' PNone)"

text \<open>
  \<^verbatim>\<open>Tender(id=..., hash=..., **kwargs)\<close>: the declarative constructor raises
  \<^verbatim>\<open>TypeError\<close> for a keyword that is no attribute of the class, and
  Python raises it for a keyword given twice (\<^verbatim>\<open>id\<close>, \<^verbatim>\<open>hash\<close>). Column defaults
  (\<^verbatim>\<open>last_updated\<close>, \<^verbatim>\<open>is_active\<close>, \<^verbatim>\<open>download_count\<close>) fill what the
  keywords leave unset. The model takes the columns for the attributes of the class: a
  keyword that names another class attribute (\<^verbatim>\<open>metadata\<close>, say) is accepted by the
  real constructor and refused here; no raw record has such a key.
\<close>

definition tender_defaults :: "int \<Rightarrow> row" where
  "tender_defaults now =
     (\<lambda>c. PNone)(''last_updated'' := PDate now, ''is_active'' := PBool True,
                 ''download_count'' := PNum 0)"

fun init_attrs :: "pydict \<Rightarrow> row \<Rightarrow> py_error + row" where
  "init_attrs [] r = Inr r"
| "init_attrs ((k, v) # kwargs) r =
     (if k \<in> set columns \<and> k \<noteq> ''id'' \<and> k \<noteq> ''hash''
      then init_attrs kwargs (r(k := v))
      else Inl TypeError)"

text \<open>\<^verbatim>\<open>new_tender.categories = json.dumps(tender_data.get('categories', []))\<close>, and so on.\<close>

fun set_json_fields :: "pylib \<Rightarrow> pydict \<Rightarrow> string list \<Rightarrow> row \<Rightarrow> py_error + row" where
  "set_json_fields L tender_data [] r = Inr r"
| "set_json_fields L tender_data (k # ks) r =
     (case json_dumps L (dget tender_data k (PList [])) of
        Inl e \<Rightarrow> Inl e
      | Inr s \<Rightarrow> set_json_fields L tender_data ks (r(k := PStr s)))"

definition new_tender :: "pylib \<Rightarrow> int \<Rightarrow> pydict \<Rightarrow> string \<Rightarrow> py_error + row" where
  "new_tender L now tender_data tender_hash =
     (case init_attrs (filter (\<lambda>(k, v). k \<notin> set json_fields) tender_data)
             ((tender_defaults now)(''id'' := PStr (primary_key L tender_data),
                                    ''hash'' := PStr tender_hash)) of
        Inl e \<Rightarrow> Inl e
      | Inr r \<Rightarrow> set_json_fields L tender_data json_fields r)"

text \<open>
  \<^verbatim>\<open>save_tender_to_db\<close>. The result is the committed table and the returned flag;
  every exception inside the \<^verbatim>\<open>try\<close> rolls back and returns \<^verbatim>\<open>False\<close>.
  \<open>now\<close> is \<^verbatim>\<open>datetime.utcnow()\<close>.
\<close>

definition save_tender_to_db :: "pylib \<Rightarrow> int \<Rightarrow> row list \<Rightarrow> pydict \<Rightarrow> row list \<times> bool" where
  "save_tender_to_db L now db tender_data =
    (let tender_id = dget tender_data ''tender_id'' PNone
     in if \<not> truthy tender_id then (db, False)
        else
          let tender_hash = md5_json L tender_data
          in case find (\<lambda>r. r ''tender_id'' = tender_id) db of
               Some existing_tender \<Rightarrow>
                 if existing_tender ''hash'' \<noteq> PStr tender_hash
                 then (case set_attrs L tender_data existing_tender of
                         Inl e \<Rightarrow> (db, False)
                       | Inr r \<Rightarrow>
                           (case commit (replace_first (\<lambda>r. r ''tender_id'' = tender_id)
                                   (r(''hash'' := PStr tender_hash, ''last_updated'' := PDate now)) db) of
                              Inl e \<Rightarrow> (db, False)
                            | Inr db' \<Rightarrow> (db', False)))
                 else (db, False)
             | None \<Rightarrow>
                 (case new_tender L now tender_data tender_hash of
                    Inl e \<Rightarrow> (db, False)
                  | Inr r \<Rightarrow>
                      (case commit (db @ [r]) of
                         Inl e \<Rightarrow> (db, False)
                       | Inr db' \<Rightarrow> (db', True))))"

text \<open>A sequence of calls, as the ingestion loops issue them: each with its own clock.\<close>

fun save_all :: "pylib \<Rightarrow> row list \<Rightarrow> (int \<times> pydict) list \<Rightarrow> row list" where
  "save_all L db [] = db"
| "save_all L db ((now, tender_data) # rest) =
     save_all L (fst (save_tender_to_db L now db tender_data)) rest"

text \<open>
  Raw records, as the extractors and the processing loop build them: a dictionary (its keys
  distinct) whose keys are columns of the table other than the storage-only ones, and
  whose JSON fields hold nothing that \<^verbatim>\<open>json.dumps\<close> refuses. \<open>stored_value\<close> is
  what the update loop writes into the column for a key of the record.
\<close>

definition storage_fields :: "string list" where
  "storage_fields = [''id'', ''hash'', ''last_updated'', ''is_active'', ''download_count'']"

definition raw_record :: "pydict \<Rightarrow> bool" where
  "raw_record tender_data \<longleftrightarrow>
     distinct (map fst tender_data) \<and>
     list_all (\<lambda>(k, v). k \<in> set columns \<and> k \<notin> set storage_fields \<and>
                 (k \<in> set json_fields \<longrightarrow> (case v of PDate d \<Rightarrow> False | _ \<Rightarrow> True)))
       tender_data"

definition stored_value :: "pylib \<Rightarrow> string \<Rightarrow> pyval \<Rightarrow> pyval" where
  "stored_value L key v =
     (if key \<in> set json_fields then PStr (dumps L (if truthy v then v else PList [])) else v)"

section \<open>A stand-in for the library\<close>

text \<open>
  To run the model on concrete records the library parameters need values. \<open>demo_lib\<close>
  is a deterministic stand-in: its digest is the concatenation of the dictionary's keys
  and string values. The examples below use it only where the outcome is the same for
  every choice of the library functions.
\<close>

definition demo_str :: "pyval \<Rightarrow> string" where
  "demo_str v = (case v of PStr s \<Rightarrow> s | PList xs \<Rightarrow> concat xs | _ \<Rightarrow> [])"

definition demo_lib :: pylib where
  "demo_lib =
     \<lparr>md5_json = (\<lambda>d. concat (map (\<lambda>(k, v). k @ ''='' @ demo_str v @ '';'') d)),
      dumps = demo_str,
      str_of = (\<lambda>v. ''?''),
      parse_date = (\<lambda>s. PNone)\<rparr>"

section \<open>Query API\<close>

text \<open>
  The endpoints receive a database session and return a response; the model returns the
  committed table with the response. Of the responses only the rows selected (and for the
  statistics some of the aggregates) are modelled: the conversion to response objects,
  JSON decoding of the list columns and the CSV text are functions of those rows. SQL
  \<^verbatim>\<open>LIKE\<close> is read as substring search (the wildcards \<^verbatim>\<open>%\<close> and \<^verbatim>\<open>_\<close> inside
  a pattern are not modelled), and \<^verbatim>\<open>ORDER BY\<close> is the parameter \<open>ord\<close>. Building the
  response objects can fail after the query (\<^verbatim>\<open>TenderResponse\<close> refuses a row whose
  closing date is NULL); that failure is not modelled, and it writes nothing either.
\<close>

record tender_filters =
  f_skip :: nat
  f_limit :: nat
  f_portal :: "string option"
  f_min_value :: "real option"
  f_category :: "string option"
  f_priority :: "string option"
  f_search :: "string option"

text \<open>\<^verbatim>\<open>if portal:\<close> on an optional string: given and not empty.\<close>

definition given :: "string option \<Rightarrow> bool" where
  "given p = (case p of None \<Rightarrow> False | Some s \<Rightarrow> s \<noteq> [])"

definition col_contains :: "row \<Rightarrow> string \<Rightarrow> string \<Rightarrow> bool" where
  "col_contains r c pat = (case r c of PStr s \<Rightarrow> sublist pat s | _ \<Rightarrow> False)"

definition col_ilike :: "row \<Rightarrow> string \<Rightarrow> string \<Rightarrow> bool" where
  "col_ilike r c pat = (case r c of PStr s \<Rightarrow> sublist (lower pat) (lower s) | _ \<Rightarrow> False)"

definition col_ge :: "row \<Rightarrow> string \<Rightarrow> real \<Rightarrow> bool" where
  "col_ge r c m = (case r c of PNum x \<Rightarrow> m \<le> x | _ \<Rightarrow> False)"

definition tender_matches :: "tender_filters \<Rightarrow> row \<Rightarrow> bool" where
  "tender_matches q r \<longleftrightarrow>
     r ''is_active'' = PBool True \<and>
     (given (f_portal q) \<longrightarrow> r ''portal'' = PStr (the (f_portal q))) \<and>
     (case f_min_value q of None \<Rightarrow> True | Some m \<Rightarrow> m = 0 \<or> col_ge r ''value'' m) \<and>
     (given (f_category q) \<longrightarrow>
        col_contains r ''categories'' ([CHR 0x22] @ the (f_category q) @ [CHR 0x22])) \<and>
     (given (f_priority q) \<longrightarrow> r ''priority'' = PStr (the (f_priority q))) \<and>
     (given (f_search q) \<longrightarrow>
        col_ilike r ''title'' (the (f_search q)) \<or> col_ilike r ''description'' (the (f_search q)) \<or>
        col_ilike r ''organization'' (the (f_search q)))"

text \<open>\<^verbatim>\<open>get_tenders\<close>: the rows that match, ordered, from \<open>skip\<close>, at most \<open>limit\<close>.\<close>

definition get_tenders ::
  "(row list \<Rightarrow> row list) \<Rightarrow> tender_filters \<Rightarrow> row list \<Rightarrow> row list \<times> row list" where
  "get_tenders ord q db = (db, take (f_limit q) (drop (f_skip q) (ord (filter (tender_matches q) db))))"

text \<open>
  \<^verbatim>\<open>export_csv\<close>: the active rows of the portal and the category asked for (the other
  filters do not exist on this endpoint).
\<close>

definition export_csv :: "string option \<Rightarrow> string option \<Rightarrow> row list \<Rightarrow> row list \<times> row list" where
  "export_csv portal category db =
     (db, filter (\<lambda>r. r ''is_active'' = PBool True \<and>
                     (given portal \<longrightarrow> r ''portal'' = PStr (the portal)) \<and>
                     (given category \<longrightarrow>
                        col_contains r ''categories'' ([CHR 0x22] @ the category @ [CHR 0x22]))) db)"

text \<open>
  \<^verbatim>\<open>get_statistics\<close>: the number of active tenders, their total amount, and the number
  of active tenders closing within seven days of \<open>now\<close>.
\<close>

record stats =
  total_tenders :: nat
  total_value :: real
  closing_soon :: nat

definition get_statistics :: "int \<Rightarrow> row list \<Rightarrow> row list \<times> stats" where
  "get_statistics now db =
    (let active = filter (\<lambda>r. r ''is_active'' = PBool True) db
     in (db,
         \<lparr>total_tenders = length active,
          total_value = sum_list (map (\<lambda>r. case r ''value'' of PNum x \<Rightarrow> x | _ \<Rightarrow> 0) active),
          closing_soon =
            length (filter (\<lambda>r. case r ''closing_date'' of
                                    PDate d \<Rightarrow> d \<le> now + 7 * usec_per_day \<and> now < d
                                  | _ \<Rightarrow> False) active)\<rparr>))"

text \<open>\<^verbatim>\<open>tender.download_count += 1\<close>\<close>

fun py_incr :: "pyval \<Rightarrow> py_error + pyval" where
  "py_incr (PNum n) = Inr (PNum (n + 1))"
| "py_incr (PBool b) = Inr (PNum ((if b then 1 else 0) + 1))"
| "py_incr _ = Inl TypeError"

text \<open>
  \<^verbatim>\<open>get_tender_detail\<close>: an unknown id is answered with status 404; otherwise the
  row's download counter is incremented and committed, and the row is returned.
\<close>

definition get_tender_detail :: "row list \<Rightarrow> string \<Rightarrow> row list \<times> (py_error + row)" where
  "get_tender_detail db tender_id =
    (case find (\<lambda>r. r ''id'' = PStr tender_id) db of
       None \<Rightarrow> (db, Inl (HTTPException 404))
     | Some tender \<Rightarrow>
         (case py_incr (tender ''download_count'') of
            Inl e \<Rightarrow> (db, Inl e)
          | Inr n \<Rightarrow>
              (case commit (replace_first (\<lambda>r. r ''id'' = PStr tender_id)
                      (tender(''download_count'' := n)) db) of
                 Inl e \<Rightarrow> (db, Inl e)
               | Inr db' \<Rightarrow> (db', Inr (tender(''download_count'' := n))))))"

section \<open>Source extractors\<close>

definition training_keywords :: "string list" where
  "training_keywords =
     [''training'', ''formation'', ''education'', ([CHR 0xE9] @ ''ducation''),
      ''learning'', ''apprentissage'', ''development'',
      (''d'' @ [CHR 0xE9] @ ''veloppement''), ''coaching'', ''certification'', ''course'',
      ''cours'', ''workshop'', ''atelier'', ''seminar'',
      (''s'' @ [CHR 0xE9] @ ''minaire''), ''instruction'', ''enseignement'',
      ''professional development'', (''d'' @ [CHR 0xE9] @ ''veloppement professionnel''),
      ''upskilling'', ''reskilling'', ''curriculum'', ''programme'', ''instructor'',
      ''instructeur'', ''facilitation'', ''e-learning'', ''mentoring'', ''mentorat'',
      ''tutorial'', ''tutoriel'', ''capacity building'',
      (''renforcement des capacit'' @ [CHR 0xE9] @ ''s''), ''skill'',
      (''comp'' @ [CHR 0xE9] @ ''tence'')]"

text \<open>\<^verbatim>\<open>_is_training_related\<close>: some relevance keyword occurs in the lower-cased title and description.\<close>

definition is_training_related :: "pylib \<Rightarrow> pydict \<Rightarrow> bool" where
  "is_training_related L tender =
    (let txt = lower (py_str L (dget tender ''title'' (PStr [])) @ '' '' @
                      py_str L (dget tender ''description'' (PStr [])))
     in list_ex (\<lambda>keyword. sublist keyword txt) training_keywords)"

text \<open>
  Page parsing is outside the model: an upstream item of a scanner of
  \<^verbatim>\<open>ProcurementScanner\<close> is the result of its \<^verbatim>\<open>_parse_...\<close> function on that
  item, \<open>None\<close> where the parser gave up. The loop body the six scanners share is
  \<^verbatim>\<open>if tender and self._is_training_related(tender): tenders.append(tender)\<close>.
\<close>

fun keep_relevant :: "pylib \<Rightarrow> pydict option list \<Rightarrow> pydict list" where
  "keep_relevant L [] = []"
| "keep_relevant L (parsed # rest) =
     (case parsed of
        None \<Rightarrow> keep_relevant L rest
      | Some tender \<Rightarrow>
          if tender \<noteq> [] \<and> is_training_related L tender
          then tender # keep_relevant L rest
          else keep_relevant L rest)"

text \<open>
  What a download or a page load gave: its content, a status other than 200, or an
  exception.
\<close>

datatype 'a fetch = Fetched 'a | BadStatus | FetchError

text \<open>
  \<^verbatim>\<open>scan_canadabuys\<close>: one CSV file per configured URL, every row parsed and filtered.
  An exception ends the scan with the records collected so far.
\<close>

fun scan_canadabuys :: "pylib \<Rightarrow> pydict option list fetch list \<Rightarrow> pydict list" where
  "scan_canadabuys L [] = []"
| "scan_canadabuys L (Fetched df # urls) = keep_relevant L df @ scan_canadabuys L urls"
| "scan_canadabuys L (BadStatus # urls) = scan_canadabuys L urls"
| "scan_canadabuys L (FetchError # urls) = []"

text \<open>
  \<^verbatim>\<open>scan_merx\<close>: \<open>pages\<close> are the result pages in the order the next button reaches
  them (the button is missing or disabled on the last one); the loop
  \<^verbatim>\<open>while page_count < 5\<close> reads a page and moves on.
\<close>

fun merx_pages :: "pylib \<Rightarrow> nat \<Rightarrow> pydict option list list \<Rightarrow> pydict list" where
  "merx_pages L page_count [] = []"
| "merx_pages L page_count (opportunities # later) =
     (if page_count < 5
      then keep_relevant L opportunities @ merx_pages L (Suc page_count) later
      else [])"

definition scan_merx :: "pylib \<Rightarrow> pydict option list list \<Rightarrow> pydict list" where
  "scan_merx L pages = merx_pages L 0 pages"

text \<open>\<^verbatim>\<open>scan_seao\<close>: the same loop with \<^verbatim>\<open>while page_count < 3\<close>.\<close>

fun seao_pages :: "pylib \<Rightarrow> nat \<Rightarrow> pydict option list list \<Rightarrow> pydict list" where
  "seao_pages L page_count [] = []"
| "seao_pages L page_count (opportunities # later) =
     (if page_count < 3
      then keep_relevant L opportunities @ seao_pages L (Suc page_count) later
      else [])"

definition scan_seao :: "pylib \<Rightarrow> pydict option list list \<Rightarrow> pydict list" where
  "scan_seao L pages = seao_pages L 0 pages"

text \<open>
  \<^verbatim>\<open>scan_ariba_portal\<close> (\<^verbatim>\<open>tender_elements[:20]\<close>; an element whose processing
  raises is skipped), \<^verbatim>\<open>scan_biddingo\<close> (\<^verbatim>\<open>opportunities[:30]\<close>) and
  \<^verbatim>\<open>scan_bcbid\<close> (\<^verbatim>\<open>rows[:30]\<close> after the header row).
\<close>

definition scan_ariba_portal :: "pylib \<Rightarrow> pydict option list \<Rightarrow> pydict list" where
  "scan_ariba_portal L tender_elements = keep_relevant L (take 20 tender_elements)"

definition scan_biddingo :: "pylib \<Rightarrow> pydict option list \<Rightarrow> pydict list" where
  "scan_biddingo L opportunities = keep_relevant L (take 30 opportunities)"

definition scan_bcbid :: "pylib \<Rightarrow> pydict option list \<Rightarrow> pydict list" where
  "scan_bcbid L trs = keep_relevant L (take 30 (drop 1 trs))"

text \<open>
  \<^verbatim>\<open>ProvincialScrapers.scan_alberta_purchasing\<close> builds its records in place. A table
  row is the stripped text of its cells and the \<^verbatim>\<open>href\<close> of the link in the second
  cell, if there is one. The page is the list of the rows of the results table, or
  \<open>None\<close> when the table is missing.
\<close>

record table_row =
  cells :: "string list"
  link :: "string option"

text \<open>\<^verbatim>\<open>parse_date\<close> of \<^verbatim>\<open>scrapers.py\<close>: an empty text gives \<^verbatim>\<open>None\<close> at once.\<close>

definition py_parse_date :: "pylib \<Rightarrow> string \<Rightarrow> pyval" where
  "py_parse_date L date_str = (if date_str = [] then PNone else parse_date L date_str)"

definition alberta_tender :: "pylib \<Rightarrow> table_row \<Rightarrow> pydict" where
  "alberta_tender L tr =
     [(''tender_id'', PStr (cells tr ! 0)),
      (''title'', PStr (cells tr ! 1)),
      (''organization'', PStr (cells tr ! 2)),
      (''portal'', PStr ''Alberta Purchasing Connection''),
      (''value'', PNum 0),
      (''closing_date'', py_parse_date L (cells tr ! 4)),
      (''posted_date'', py_parse_date L (cells tr ! 3)),
      (''location'', PStr ''Alberta''),
      (''tender_url'',
         PStr (case link tr of
                 None \<Rightarrow> ''https://vendor.purchasingconnection.ca/''
               | Some href \<Rightarrow> ''https://vendor.purchasingconnection.ca/'' @ href)),
      (''description'', PStr []),
      (''categories'', PList []),
      (''keywords'', PList [])]"

fun alberta_rows :: "pylib \<Rightarrow> table_row list \<Rightarrow> pydict list" where
  "alberta_rows L [] = []"
| "alberta_rows L (tr # rest) =
     (if 5 \<le> length (cells tr) then alberta_tender L tr # alberta_rows L rest
      else alberta_rows L rest)"

definition scan_alberta_purchasing :: "pylib \<Rightarrow> table_row list option fetch \<Rightarrow> pydict list" where
  "scan_alberta_purchasing L page =
     (case page of
        Fetched (Some trs) \<Rightarrow> alberta_rows L (take 30 (drop 1 trs))
      | _ \<Rightarrow> [])"

text \<open>
  The other sixteen extractors of \<^verbatim>\<open>scrapers.py\<close> have the same shape: the whole body
  is inside \<^verbatim>\<open>try\<close>/\<^verbatim>\<open>except Exception\<close>, the upstream items are sliced, and the
  loop body handles one item. An item is given by what the body does with it: it builds a
  record and appends it, it skips the item (a row with too few cells, a text without the
  word the body looks for; bodies without a condition skip nothing), or it raises (a
  link without \<^verbatim>\<open>href\<close>, a missing element), which ends the scan with the records
  collected so far.
\<close>

datatype item_result = Built pydict | Skipped | Broke

fun collect :: "item_result list \<Rightarrow> pydict list" where
  "collect [] = []"
| "collect (Built tender # rest) = tender # collect rest"
| "collect (Skipped # rest) = collect rest"
| "collect (Broke # rest) = []"

text \<open>
  Extractors that slice a list of elements (\<^verbatim>\<open>results[:30]\<close>,
  \<^verbatim>\<open>tender_items[:30]\<close>, ...). The page is the list found on it, or an exception
  before the loop.
\<close>

definition scan_saskatchewan_tenders :: "item_result list fetch \<Rightarrow> pydict list" where
  "scan_saskatchewan_tenders page =
     (case page of Fetched results \<Rightarrow> collect (take 30 results) | _ \<Rightarrow> [])"

definition scan_ontario_tenders :: "item_result list fetch \<Rightarrow> pydict list" where
  "scan_ontario_tenders page =
     (case page of Fetched tender_items \<Rightarrow> collect (take 30 tender_items) | _ \<Rightarrow> [])"

definition scan_ottawa_bids :: "item_result list fetch \<Rightarrow> pydict list" where
  "scan_ottawa_bids page =
     (case page of Fetched tender_rows \<Rightarrow> collect (take 30 tender_rows) | _ \<Rightarrow> [])"

definition scan_edmonton_bids :: "item_result list fetch \<Rightarrow> pydict list" where
  "scan_edmonton_bids page =
     (case page of Fetched tender_rows \<Rightarrow> collect (take 30 tender_rows) | _ \<Rightarrow> [])"

definition scan_calgary_procurement :: "item_result list fetch \<Rightarrow> pydict list" where
  "scan_calgary_procurement page =
     (case page of Fetched opportunities \<Rightarrow> collect (take 30 opportunities) | _ \<Rightarrow> [])"

definition scan_halifax_procurement :: "item_result list fetch \<Rightarrow> pydict list" where
  "scan_halifax_procurement page =
     (case page of Fetched results \<Rightarrow> collect (take 30 results) | _ \<Rightarrow> [])"

definition scan_regina_procurement :: "item_result list fetch \<Rightarrow> pydict list" where
  "scan_regina_procurement page =
     (case page of Fetched opportunities \<Rightarrow> collect (take 30 opportunities) | _ \<Rightarrow> [])"

definition scan_nbon_newbrunswick :: "item_result list fetch \<Rightarrow> pydict list" where
  "scan_nbon_newbrunswick page =
     (case page of Fetched opportunities \<Rightarrow> collect (take 30 opportunities) | _ \<Rightarrow> [])"

definition scan_buybc_health :: "item_result list fetch \<Rightarrow> pydict list" where
  "scan_buybc_health page =
     (case page of Fetched tender_cards \<Rightarrow> collect (take 30 tender_cards) | _ \<Rightarrow> [])"

text \<open>\<^verbatim>\<open>scan_ontario_health\<close> slices \<^verbatim>\<open>opportunities[:20]\<close>.\<close>

definition scan_ontario_health :: "item_result list fetch \<Rightarrow> pydict list" where
  "scan_ontario_health page =
     (case page of Fetched opportunities \<Rightarrow> collect (take 20 opportunities) | _ \<Rightarrow> [])"

text \<open>
  Extractors that fetch with the HTTP session and read the page only on status 200:
  \<^verbatim>\<open>scan_manitoba_tenders\<close> (\<^verbatim>\<open>tender_links[:30]\<close>) and \<^verbatim>\<open>scan_pei_tenders\<close>
  (\<^verbatim>\<open>results[:30]\<close>).
\<close>

definition scan_manitoba_tenders :: "item_result list fetch \<Rightarrow> pydict list" where
  "scan_manitoba_tenders response =
     (case response of Fetched tender_links \<Rightarrow> collect (take 30 tender_links) | _ \<Rightarrow> [])"

definition scan_pei_tenders :: "item_result list fetch \<Rightarrow> pydict list" where
  "scan_pei_tenders response =
     (case response of Fetched results \<Rightarrow> collect (take 30 results) | _ \<Rightarrow> [])"

text \<open>
  Extractors that look for a container first, \<open>None\<close> when it is missing: the results
  table, whose header row is dropped (\<^verbatim>\<open>find_all('tr')[1:]\<close>, then \<^verbatim>\<open>rows[:30]\<close>), in
  \<^verbatim>\<open>scan_ns_tenders\<close>, \<^verbatim>\<open>scan_winnipeg_bids\<close> and
  \<^verbatim>\<open>scan_vancouver_procurement\<close>; the list element (\<^verbatim>\<open>tender_items[:30]\<close>) in
  \<^verbatim>\<open>scan_nl_procurement\<close>.
\<close>

definition scan_ns_tenders :: "item_result list option fetch \<Rightarrow> pydict list" where
  "scan_ns_tenders page =
     (case page of Fetched (Some trs) \<Rightarrow> collect (take 30 (drop 1 trs)) | _ \<Rightarrow> [])"

definition scan_winnipeg_bids :: "item_result list option fetch \<Rightarrow> pydict list" where
  "scan_winnipeg_bids response =
     (case response of Fetched (Some trs) \<Rightarrow> collect (take 30 (drop 1 trs)) | _ \<Rightarrow> [])"

definition scan_vancouver_procurement :: "item_result list option fetch \<Rightarrow> pydict list" where
  "scan_vancouver_procurement page =
     (case page of Fetched (Some trs) \<Rightarrow> collect (take 30 (drop 1 trs)) | _ \<Rightarrow> [])"

definition scan_nl_procurement :: "item_result list option fetch \<Rightarrow> pydict list" where
  "scan_nl_procurement response =
     (case response of Fetched (Some tender_items) \<Rightarrow> collect (take 30 tender_items) | _ \<Rightarrow> [])"

section \<open>Orchestrator\<close>

text \<open>
  The portal registry \<^verbatim>\<open>PORTAL_CONFIGS\<close> (of each entry the name and the
  \<^verbatim>\<open>requires_selenium\<close> flag, \<open>False\<close> where the key is absent) and the dispatch
  table \<^verbatim>\<open>SCRAPER_DISPATCHER\<close>, whose values are strings or functions of
  \<^verbatim>\<open>scrapers.py\<close> (given by their names).
\<close>

record portal_config =
  portal_name :: string
  requires_selenium :: bool

definition PORTAL_CONFIGS :: "(string \<times> portal_config) list" where
  "PORTAL_CONFIGS =
   [
    (''canadabuys'', \<lparr>portal_name = ''CanadaBuys'', requires_selenium = False\<rparr>),
    (''merx'', \<lparr>portal_name = ''MERX'', requires_selenium = True\<rparr>),
    (''biddingo'', \<lparr>portal_name = ''Biddingo'', requires_selenium = True\<rparr>),
    (''bcbid'', \<lparr>portal_name = ''BC Bid'', requires_selenium = True\<rparr>),
    (''albertapurchasing'', \<lparr>portal_name = ''Alberta Purchasing Connection'',
       requires_selenium = True\<rparr>),
    (''sasktenders'', \<lparr>portal_name = ''SaskTenders'', requires_selenium = True\<rparr>),
    (''manitoba'', \<lparr>portal_name = ''Manitoba Tenders'',
       requires_selenium = False\<rparr>),
    (''ontario'', \<lparr>portal_name = ''Ontario Tenders Portal'',
       requires_selenium = True\<rparr>),
    (''seao'', \<lparr>portal_name = ''SEAO Quebec'', requires_selenium = True\<rparr>),
    (''nbon'', \<lparr>portal_name = ''New Brunswick Opportunities Network'',
       requires_selenium = True\<rparr>),
    (''ns'', \<lparr>portal_name = ''Nova Scotia Tenders'', requires_selenium = True\<rparr>),
    (''pei'', \<lparr>portal_name = ''PEI Tenders'', requires_selenium = False\<rparr>),
    (''nl'', \<lparr>portal_name = ''Newfoundland Procurement'',
       requires_selenium = False\<rparr>),
    (''toronto'', \<lparr>portal_name = ''City of Toronto'', requires_selenium = True\<rparr>),
    (''vancouver'', \<lparr>portal_name = ''City of Vancouver'',
       requires_selenium = True\<rparr>),
    (''montreal'', \<lparr>portal_name = ''City of Montreal'',
       requires_selenium = True\<rparr>),
    (''calgary'', \<lparr>portal_name = ''City of Calgary'', requires_selenium = True\<rparr>),
    (''edmonton'', \<lparr>portal_name = ''City of Edmonton'',
       requires_selenium = True\<rparr>),
    (''ottawa'', \<lparr>portal_name = ''City of Ottawa'', requires_selenium = True\<rparr>),
    (''winnipeg'', \<lparr>portal_name = ''City of Winnipeg'',
       requires_selenium = False\<rparr>),
    (''quebec_city'', \<lparr>portal_name = ''Quebec City'', requires_selenium = True\<rparr>),
    (''halifax'', \<lparr>portal_name = ''Halifax Regional Municipality'',
       requires_selenium = True\<rparr>),
    (''london'', \<lparr>portal_name = ''City of London'', requires_selenium = True\<rparr>),
    (''hamilton'', \<lparr>portal_name = ''City of Hamilton'',
       requires_selenium = True\<rparr>),
    (''kitchener'', \<lparr>portal_name = ''City of Kitchener'',
       requires_selenium = True\<rparr>),
    (''regina'', \<lparr>portal_name = ''City of Regina'', requires_selenium = True\<rparr>),
    (''saskatoon'', \<lparr>portal_name = ''City of Saskatoon'',
       requires_selenium = True\<rparr>),
    (''buybc'', \<lparr>portal_name = ''Buy BC Health'', requires_selenium = True\<rparr>),
    (''mohltc'', \<lparr>portal_name = ''Ontario Health'', requires_selenium = True\<rparr>)
   ]"

datatype scraper_ref = Str string | Callable string

definition SCRAPER_DISPATCHER :: "(string \<times> scraper_ref) list" where
  "SCRAPER_DISPATCHER =
   [
    (''canadabuys'', Str ''scan_canadabuys''),
    (''merx'', Str ''scan_merx''),
    (''bcbid'', Str ''scan_bcbid''),
    (''seao'', Str ''scan_seao''),
    (''toronto'', Str ''scan_ariba_portal''),
    (''biddingo'', Str ''scan_biddingo''),
    (''london'', Str ''scan_biddingo''),
    (''hamilton'', Str ''scan_biddingo''),
    (''kitchener'', Str ''scan_biddingo''),
    (''albertapurchasing'', Callable ''scan_alberta_purchasing''),
    (''sasktenders'', Callable ''scan_saskatchewan_tenders''),
    (''manitoba'', Callable ''scan_manitoba_tenders''),
    (''ontario'', Callable ''scan_ontario_tenders''),
    (''ns'', Callable ''scan_ns_tenders''),
    (''ottawa'', Callable ''scan_ottawa_bids''),
    (''edmonton'', Callable ''scan_edmonton_bids''),
    (''calgary'', Callable ''scan_calgary_procurement''),
    (''winnipeg'', Callable ''scan_winnipeg_bids''),
    (''vancouver'', Callable ''scan_vancouver_procurement''),
    (''halifax'', Callable ''scan_halifax_procurement''),
    (''regina'', Callable ''scan_regina_procurement''),
    (''nbon'', Callable ''scan_nbon_newbrunswick''),
    (''pei'', Callable ''scan_pei_tenders''),
    (''nl'', Callable ''scan_nl_procurement''),
    (''buybc'', Callable ''scan_buybc_health''),
    (''mohltc'', Callable ''scan_ontario_health''),
    (''montreal'', Str ''seao''),
    (''quebec_city'', Str ''seao''),
    (''saskatoon'', Str ''sasktenders'')
   ]"

text \<open>
  The resolution in \<^verbatim>\<open>_execute_scans_async\<close>: a string that is itself a key of the
  table is followed once; the portal is scanned only if the result is callable.
\<close>

definition resolve_scraper :: "string \<Rightarrow> string option" where
  "resolve_scraper portal_id =
    (let scraper_func_ref = map_of SCRAPER_DISPATCHER portal_id;
         scraper_func_ref =
           (case scraper_func_ref of
              Some (Str s) \<Rightarrow>
                if s \<in> set (map fst SCRAPER_DISPATCHER) then map_of SCRAPER_DISPATCHER s
                else scraper_func_ref
            | _ \<Rightarrow> scraper_func_ref)
     in case scraper_func_ref of Some (Callable f) \<Rightarrow> Some f | _ \<Rightarrow> None)"

text \<open>
  The run report \<^verbatim>\<open>results\<close>. An entry of \<^verbatim>\<open>errors\<close> holds the portal's name and
  the exception (its text is the message). \<^verbatim>\<open>d[k] = v\<close> on a dictionary keeps the
  position of an existing key and appends a new one.
\<close>

record portal_counts =
  found :: nat
  new :: nat
  updated :: nat

record results =
  scanned :: "string list"
  total_found :: nat
  new_tenders :: nat
  updated_tenders :: nat
  errors :: "(string \<times> py_error) list"
  by_portal :: "(string \<times> portal_counts) list"

fun dset :: "('k \<times> 'v) list \<Rightarrow> 'k \<Rightarrow> 'v \<Rightarrow> ('k \<times> 'v) list" where
  "dset [] k v = [(k, v)]"
| "dset ((k', v') # d) k v = (if k' = k then (k, v) # d else (k', v') # dset d k v)"

definition empty_results :: results where
  "empty_results =
     \<lparr>scanned = [], total_found = 0, new_tenders = 0, updated_tenders = 0, errors = [],
      by_portal = []\<rparr>"

text \<open>
  The matcher is passed in, as in the source: \<open>match_courses\<close> and \<open>calc_priority\<close>
  are its two methods, each returning a result or raising. The clock is read once per
  batch in the model; it reaches only \<^verbatim>\<open>last_updated\<close>.
\<close>

record matcher =
  match_courses :: "pydict \<Rightarrow> py_error + string list"
  calc_priority :: "pydict \<Rightarrow> py_error + string"

text \<open>
  The loop of \<^verbatim>\<open>_process_tenders\<close>. The state is the table, the portal's counters
  and the report; an exception leaves the loop with the state reached, since commits and
  counter increments before it are not undone.
\<close>

fun process_loop ::
  "matcher \<Rightarrow> pylib \<Rightarrow> int \<Rightarrow> pydict list \<Rightarrow> row list \<times> portal_counts \<times> results \<Rightarrow>
     py_error option \<times> row list \<times> portal_counts \<times> results" where
  "process_loop M L now [] (db, portal_results, res) = (None, db, portal_results, res)"
| "process_loop M L now (tender_data # rest) (db, portal_results, res) =
     (case match_courses M tender_data of
        Inl e \<Rightarrow> (Some e, db, portal_results, res)
      | Inr courses \<Rightarrow>
          (let tender_data = dset tender_data ''matching_courses'' (PList courses)
           in case calc_priority M tender_data of
                Inl e \<Rightarrow> (Some e, db, portal_results, res)
              | Inr p \<Rightarrow>
                  (let tender_data = dset tender_data ''priority'' (PStr p);
                       saved = save_tender_to_db L now db tender_data
                   in if snd saved
                      then process_loop M L now rest
                             (fst saved, portal_results\<lparr>new := new portal_results + 1\<rparr>,
                              res\<lparr>new_tenders := new_tenders res + 1\<rparr>)
                      else process_loop M L now rest
                             (fst saved, portal_results\<lparr>updated := updated portal_results + 1\<rparr>,
                              res\<lparr>updated_tenders := updated_tenders res + 1\<rparr>))))"

text \<open>
  \<^verbatim>\<open>_process_tenders\<close>. \<^verbatim>\<open>portal_results\<close> is the portal's entry of
  \<^verbatim>\<open>by_portal\<close> itself when there is one, so its counters change in place even if the
  loop is left by an exception; a fresh entry is stored only when the loop completes.
\<close>

definition process_tenders ::
  "matcher \<Rightarrow> pylib \<Rightarrow> int \<Rightarrow> pydict list \<Rightarrow> string \<Rightarrow> row list \<times> results \<Rightarrow> row list \<times> results" where
  "process_tenders M L now tenders pname st =
    (if tenders = [] then st
     else
       let existing = map_of (by_portal (snd st)) pname;
           portal_results =
             (case existing of None \<Rightarrow> \<lparr>found = 0, new = 0, updated = 0\<rparr> | Some pr \<Rightarrow> pr);
           portal_results = portal_results\<lparr>found := found portal_results + length tenders\<rparr>
       in case process_loop M L now tenders (fst st, portal_results, snd st) of
            (None, db, portal_results, res) \<Rightarrow>
              (db, res\<lparr>total_found := total_found res + length tenders,
                       by_portal := dset (by_portal res) pname portal_results\<rparr>)
          | (Some e, db, portal_results, res) \<Rightarrow>
              (db, case existing of
                     None \<Rightarrow> res
                   | Some pr \<Rightarrow> res\<lparr>by_portal := dset (by_portal res) pname portal_results\<rparr>))"

text \<open>
  The loop of \<^verbatim>\<open>_execute_scans_async\<close>. Each requested portal id comes with the
  outcome of its \<^verbatim>\<open>try\<close> block (acquiring the browser session, then calling the
  extractor): the records yielded, or the exception raised. Portals without configuration
  or without a callable scraper are skipped before the block. Which outcomes the shipped
  code can produce is \<open>scan_outcomes\<close> below.
\<close>

fun execute_scans_async ::
  "matcher \<Rightarrow> pylib \<Rightarrow> int \<Rightarrow> (string \<times> (py_error + pydict list)) list \<Rightarrow>
     row list \<times> results \<Rightarrow> row list \<times> results" where
  "execute_scans_async M L now [] st = st"
| "execute_scans_async M L now ((portal_id, outcome) # rest) st =
     (case map_of PORTAL_CONFIGS portal_id of
        None \<Rightarrow> execute_scans_async M L now rest st
      | Some config \<Rightarrow>
          (case resolve_scraper portal_id of
             None \<Rightarrow> execute_scans_async M L now rest st
           | Some f \<Rightarrow>
               (case outcome of
                  Inl e \<Rightarrow>
                    execute_scans_async M L now rest
                      (fst st, (snd st)\<lparr>errors := errors (snd st) @ [(portal_name config, e)]\<rparr>)
                | Inr tenders \<Rightarrow>
                    (let st' = (if tenders \<noteq> []
                                then process_tenders M L now tenders (portal_name config) st
                                else st)
                     in execute_scans_async M L now rest
                          (fst st', (snd st')\<lparr>scanned := scanned (snd st') @ [portal_id]\<rparr>)))))"

text \<open>
  For stating properties: the portal ids that are scanned at all, the matcher raising on
  none of a list of records, and the error entries a list of outcomes produces.
\<close>

definition runnable :: "string \<Rightarrow> bool" where
  "runnable portal_id \<longleftrightarrow> map_of PORTAL_CONFIGS portal_id \<noteq> None \<and> resolve_scraper portal_id \<noteq> None"

definition name_of :: "string \<Rightarrow> string" where
  "name_of portal_id = (case map_of PORTAL_CONFIGS portal_id of None \<Rightarrow> [] | Some config \<Rightarrow> portal_name config)"

definition matcher_ok :: "matcher \<Rightarrow> pydict list \<Rightarrow> bool" where
  "matcher_ok M tenders =
     list_all (\<lambda>tender_data.
        case match_courses M tender_data of
          Inl e \<Rightarrow> False
        | Inr courses \<Rightarrow>
            (case calc_priority M (dset tender_data ''matching_courses'' (PList courses)) of
               Inl e \<Rightarrow> False
             | Inr p \<Rightarrow> True)) tenders"






text \<open>
  A matcher for running the model on concrete records: no course matches, and the
  priority is computed by \<open>calculate_priority\<close> at time 0.
\<close>

definition demo_matcher :: matcher where
  "demo_matcher = \<lparr>match_courses = (\<lambda>tender_data. Inr []), calc_priority = calculate_priority 0\<rparr>"

text \<open>A portal's entry of \<^verbatim>\<open>by_portal\<close>, if there is one, has found = new + updated.\<close>

definition balanced :: "results \<Rightarrow> string \<Rightarrow> bool" where
  "balanced res q \<longleftrightarrow>
     (case map_of (by_portal res) q of None \<Rightarrow> True | Some e \<Rightarrow> found e = new e + updated e)"

chapter \<open>Properties\<close>

section \<open>Properties of the prioritizer\<close>

text \<open>
  C5. For every record whose amount is a number, whose closing date is unset or a
  datetime and whose matched offerings and categories are lists,
  \<open>calculate_priority\<close> returns low when the closing date is unset; otherwise high if the
  amount exceeds 1,000,000 or fewer than 7 days remain or at least 3 offerings matched or
  at least 2 categories are assigned; else medium if the amount exceeds 500,000 or fewer
  than 14 days remain or at least 1 offering matched; else low. The days remaining are
  the floor of (closing date - now) in whole days, so a closing date in the past gives a
  negative number and the record is high.
\<close>

theorem calculate_priority_rules:
  assumes "dget tender ''value'' (PNum 0) = PNum v"
    and "dget tender ''closing_date'' PNone = (case closing of None \<Rightarrow> PNone | Some c \<Rightarrow> PDate c)"
    and "dget tender ''matching_courses'' (PList []) = PList ms"
    and "dget tender ''categories'' (PList []) = PList cs"
  shows "calculate_priority now tender = Inr
      (case closing of
         None \<Rightarrow> ''low''
       | Some c \<Rightarrow>
           (let days = (c - now) div (86400 * 1000000) in
            if v > 1000000 \<or> days < 7 \<or> 3 \<le> length ms \<or> 2 \<le> length cs then ''high''
            else if v > 500000 \<or> days < 14 \<or> 1 \<le> length ms then ''medium''
            else ''low''))
    \<and> (\<forall>c. closing = Some c \<and> c < now \<longrightarrow> calculate_priority now tender = Inr ''high'')"
proof (cases closing)
  case None
  then show ?thesis using assms by (simp add: calculate_priority_def)
next
  case (Some c)
  have neg: "c < now \<Longrightarrow> (c - now) div (86400 * 1000000) < 7"
  proof -
    assume "c < now"
    then have "(c - now) div (86400 * 1000000) < 0"
      by (simp add: pos_imp_zdiv_neg_iff)
    then show ?thesis by simp
  qed
  show ?thesis
    using assms Some neg
    by (auto simp: calculate_priority_def usec_per_day_def Let_def)
qed

theorem calculate_priority_rules_witness:
  "calculate_priority 0
     [(''value'', PNum 2000000), (''closing_date'', PDate (30 * 86400 * 1000000)),
      (''matching_courses'', PList []), (''categories'', PList [''leadership''])]
   = Inr ''high''"
  using calculate_priority_rules [of
     "[(''value'', PNum 2000000), (''closing_date'', PDate (30 * 86400 * 1000000)),
       (''matching_courses'', PList []), (''categories'', PList [''leadership''])]"
     2000000 "Some (30 * 86400 * 1000000)" "[]" "[''leadership'']" 0]
  by (simp add: dget_def)

section \<open>Properties of the classifier\<close>

lemma categories_loop_mem:
  "c \<in> set (categories_loop T t) \<longleftrightarrow>
     (\<exists>cfg. (c, cfg) \<in> set T \<and> 2 \<le> count_matches (config_keywords cfg) t)"
  by (induction T t rule: categories_loop.induct) auto

lemma TKA_COURSES_distinct_categories: "distinct (map fst TKA_COURSES)"
  by (simp add: TKA_COURSES_def)

lemma TKA_COURSES_distinct_keywords:
  "(c, cfg) \<in> set TKA_COURSES \<Longrightarrow> distinct (config_keywords cfg)"
  by (auto simp: TKA_COURSES_def)

lemma count_matches_card:
  "distinct kws \<Longrightarrow> count_matches kws t = card {k \<in> set kws. sublist k t}"
proof -
  assume "distinct kws"
  then have "distinct (filter (\<lambda>k. sublist k t) kws)"
    by simp
  then have "length (filter (\<lambda>k. sublist k t) kws) = card (set (filter (\<lambda>k. sublist k t) kws))"
    by (rule distinct_card [symmetric])
  then show ?thesis by (simp add: count_matches_def)
qed

text \<open>
  C4. For every input text and every category of the taxonomy,
  \<open>extract_categories_from_text\<close> assigns the category if and only if at least 2 of the
  category's keywords occur as substrings of the lower-cased text; a text that contains
  exactly one of the category's keywords leaves the category unassigned.
\<close>

theorem classify_threshold:
  assumes "(category, config) \<in> set TKA_COURSES"
  shows "(category \<in> set (extract_categories_from_text txt) \<longleftrightarrow>
            2 \<le> card {k \<in> set (config_keywords config). sublist k (lower txt)})
       \<and> (card {k \<in> set (config_keywords config). sublist k (lower txt)} = 1 \<longrightarrow>
            category \<notin> set (extract_categories_from_text txt))"
proof -
  have uniq: "cfg = config" if "(category, cfg) \<in> set TKA_COURSES" for cfg
    using that assms TKA_COURSES_distinct_categories
    by (meson eq_key_imp_eq_value)
  have "category \<in> set (extract_categories_from_text txt) \<longleftrightarrow>
          2 \<le> count_matches (config_keywords config) (lower txt)"
    unfolding extract_categories_from_text_def categories_loop_mem
    using assms uniq by blast
  then show ?thesis
    using count_matches_card [OF TKA_COURSES_distinct_keywords [OF assms]] by simp
qed

theorem classify_threshold_witness:
  "(''agile-scrum'',
     \<lparr>config_keywords =
        [''agile'', ''scrum'', ''safe'', ''kanban'', ''sprint'', ''product owner'',
         ''scrum master'', ''lean'', ''jira'', ''confluence'', ''retrospective'',
         ''backlog''],
      config_courses =
        [''Scrum Master Certification'', ''Product Owner Certification'', ''SAFe Agilist'',
         ''Agile Coach'', ''Kanban Training'']\<rparr>) \<in> set TKA_COURSES
   \<and> ''agile-scrum'' \<in> set (extract_categories_from_text ''Agile coach and Scrum Master'')
   \<and> 2 \<le> card {k \<in> set [''agile'', ''scrum'', ''safe'', ''kanban'', ''sprint'',
         ''product owner'', ''scrum master'', ''lean'', ''jira'', ''confluence'',
         ''retrospective'', ''backlog'']. sublist k (lower ''Agile coach and Scrum Master'')}
   \<and> ''agile-scrum'' \<notin> set (extract_categories_from_text ''An Agile team'')
   \<and> \<not> 2 \<le> card {k \<in> set [''agile'', ''scrum'', ''safe'', ''kanban'', ''sprint'',
         ''product owner'', ''scrum master'', ''lean'', ''jira'', ''confluence'',
         ''retrospective'', ''backlog'']. sublist k (lower ''An Agile team'')}"
proof -
  let ?cfg = "\<lparr>config_keywords =
        [''agile'', ''scrum'', ''safe'', ''kanban'', ''sprint'', ''product owner'',
         ''scrum master'', ''lean'', ''jira'', ''confluence'', ''retrospective'',
         ''backlog''],
      config_courses =
        [''Scrum Master Certification'', ''Product Owner Certification'', ''SAFe Agilist'',
         ''Agile Coach'', ''Kanban Training'']\<rparr>"
  have mem: "(''agile-scrum'', ?cfg) \<in> set TKA_COURSES"
    by (simp add: TKA_COURSES_def)
  have yes: "''agile-scrum'' \<in> set (extract_categories_from_text ''Agile coach and Scrum Master'')"
    by code_simp
  have no: "''agile-scrum'' \<notin> set (extract_categories_from_text ''An Agile team'')"
    by code_simp
  from classify_threshold [OF mem, of "''Agile coach and Scrum Master''"]
       classify_threshold [OF mem, of "''An Agile team''"] yes no mem
  show ?thesis by simp
qed

section \<open>Properties of the reconciliation store\<close>

lemma commit_ok: "commit db' = Inr db'' \<Longrightarrow> db'' = db' \<and> constraints_ok db'"
  by (auto simp: commit_def split: if_splits)

lemma save_constraints:
  "constraints_ok db \<Longrightarrow> constraints_ok (fst (save_tender_to_db L now db td))"
  by (auto simp: save_tender_to_db_def Let_def dest: commit_ok split: option.splits sum.splits)

lemma save_all_constraints:
  "constraints_ok db \<Longrightarrow> constraints_ok (save_all L db runs)"
  by (induction L db runs rule: save_all.induct) (auto simp: save_constraints)

lemma distinct_filter_le_1:
  "distinct (filter (\<lambda>v. v \<noteq> n) (map f xs)) \<Longrightarrow> v \<noteq> n \<Longrightarrow> length (filter (\<lambda>x. f x = v) xs) \<le> 1"
proof (induction xs)
  case Nil
  then show ?case by simp
next
  case (Cons x xs)
  show ?case
  proof (cases "f x = v")
    case True
    with Cons.prems have "v \<notin> set (filter (\<lambda>v. v \<noteq> n) (map f xs))" by auto
    with Cons.prems have "filter (\<lambda>x. f x = v) xs = []"
      by (auto simp: filter_empty_conv)
    with True show ?thesis by simp
  next
    case False
    with Cons show ?thesis by (auto split: if_splits)
  qed
qed

lemma constraints_one_tender_id:
  "constraints_ok db \<Longrightarrow> v \<noteq> PNone \<Longrightarrow> length (filter (\<lambda>r. r ''tender_id'' = v) db) \<le> 1"
  using distinct_filter_le_1 [of PNone "\<lambda>r. r ''tender_id''" db v]
  by (simp add: constraints_ok_def)

lemma constraints_one_id:
  "constraints_ok db \<Longrightarrow> length (filter (\<lambda>r. r ''id'' = v) db) \<le> 1"
proof -
  have gen: "distinct (map f xs) \<Longrightarrow> length (filter (\<lambda>x. f x = v) xs) \<le> 1"
    for f :: "row \<Rightarrow> pyval" and xs
  proof (induction xs)
    case Nil
    then show ?case by simp
  next
    case (Cons x xs)
    show ?case
    proof (cases "f x = v")
      case True
      with Cons.prems have "filter (\<lambda>x. f x = v) xs = []"
        by (auto simp: filter_empty_conv image_iff)
      with True show ?thesis by simp
    next
      case False
      with Cons show ?thesis by simp
    qed
  qed
  assume "constraints_ok db"
  then have "distinct (map (\<lambda>r. r ''id'') db)"
    by (simp add: constraints_ok_def)
  then show ?thesis
    by (rule gen)
qed

text \<open>
  C1. Two tender records with the same identity (portal, tender id) get the same primary
  key, the string portal, underscore, tender id; and after any sequence of upserts into a
  table that satisfies the schema's constraints, at most one stored row carries that
  tender id and at most one carries that primary key, whatever else the records hold.
\<close>

theorem identity_dedup:
  assumes "dget td1 ''portal'' (PStr ''unknown'') = PStr p"
    and "dget td1 ''tender_id'' PNone = PStr t"
    and "dget td2 ''portal'' (PStr ''unknown'') = PStr p"
    and "dget td2 ''tender_id'' PNone = PStr t"
    and "constraints_ok db"
  shows "primary_key L td1 = p @ ''_'' @ t \<and> primary_key L td2 = primary_key L td1
       \<and> length (filter (\<lambda>r. r ''tender_id'' = PStr t) (save_all L db runs)) \<le> 1
       \<and> length (filter (\<lambda>r. r ''id'' = PStr (primary_key L td1)) (save_all L db runs)) \<le> 1"
  using assms constraints_one_id [OF save_all_constraints [OF assms(5)]]
    constraints_one_tender_id [OF save_all_constraints [OF assms(5)]]
  by (simp add: primary_key_def py_str_def)

theorem identity_dedup_witness:
  "primary_key demo_lib
     [(''tender_id'', PStr ''X1''), (''portal'', PStr ''MERX''), (''title'', PStr ''Agile training'')]
     = ''MERX_X1''
   \<and> length (filter (\<lambda>r. r ''id'' = PStr ''MERX_X1'')
        (save_all demo_lib []
          [(0, [(''tender_id'', PStr ''X1''), (''portal'', PStr ''MERX''), (''title'', PStr ''Agile training'')]),
           (1, [(''tender_id'', PStr ''X1''), (''portal'', PStr ''MERX''), (''title'', PStr ''Agile training, amended'')]),
           (2, [(''tender_id'', PStr ''X1''), (''portal'', PStr ''MERX''), (''title'', PStr ''Agile training'')])])) \<le> 1
   \<and> length (save_all demo_lib []
          [(0, [(''tender_id'', PStr ''X1''), (''portal'', PStr ''MERX''), (''title'', PStr ''Agile training'')]),
           (1, [(''tender_id'', PStr ''X1''), (''portal'', PStr ''MERX''), (''title'', PStr ''Agile training, amended'')]),
           (2, [(''tender_id'', PStr ''X1''), (''portal'', PStr ''MERX''), (''title'', PStr ''Agile training'')])]) = 1"
proof -
  let ?td1 = "[(''tender_id'', PStr ''X1''), (''portal'', PStr ''MERX''), (''title'', PStr ''Agile training'')]"
  let ?td2 = "[(''tender_id'', PStr ''X1''), (''portal'', PStr ''MERX''), (''title'', PStr ''Agile training, amended'')]"
  let ?runs = "[(0, ?td1), (1, ?td2), (2, ?td1)]"
  have one: "length (save_all demo_lib [] ?runs) = 1"
    by (simp add: save_tender_to_db_def dget_def demo_lib_def demo_str_def new_tender_def
        primary_key_def py_str_def tender_defaults_def columns_def json_fields_def json_dumps_def
        commit_def constraints_ok_def setattr_def)
  have ok: "constraints_ok []" by (simp add: constraints_ok_def)
  have h1: "dget ?td1 ''portal'' (PStr ''unknown'') = PStr ''MERX''" by (simp add: dget_def)
  have h2: "dget ?td1 ''tender_id'' PNone = PStr ''X1''" by (simp add: dget_def)
  have h3: "dget ?td2 ''portal'' (PStr ''unknown'') = PStr ''MERX''" by (simp add: dget_def)
  have h4: "dget ?td2 ''tender_id'' PNone = PStr ''X1''" by (simp add: dget_def)
  note th = identity_dedup [OF h1 h2 h3 h4 ok, of demo_lib ?runs]
  from th have pk: "primary_key demo_lib ?td1 = ''MERX_X1''" by simp
  from th have "length (filter (\<lambda>r. r ''id'' = PStr (primary_key demo_lib ?td1))
      (save_all demo_lib [] ?runs)) \<le> 1" by blast
  then have "length (filter (\<lambda>r. r ''id'' = PStr ''MERX_X1'') (save_all demo_lib [] ?runs)) \<le> 1"
    unfolding pk .
  with pk one show ?thesis by blast
qed

lemma init_attrs_ok:
  "list_all (\<lambda>(k, v). k \<in> set columns \<and> k \<noteq> ''id'' \<and> k \<noteq> ''hash'') kw \<Longrightarrow>
   distinct (map fst kw) \<Longrightarrow>
   \<exists>r'. init_attrs kw r = Inr r' \<and> (\<forall>k. r' k = (case map_of kw k of None \<Rightarrow> r k | Some v \<Rightarrow> v))"
proof (induction kw arbitrary: r)
  case Nil
  then show ?case by simp
next
  case (Cons a kw)
  obtain k v where a: "a = (k, v)" by (cases a)
  from Cons.prems a have ok: "k \<in> set columns" "k \<noteq> ''id''" "k \<noteq> ''hash''"
    and rest: "list_all (\<lambda>(k, v). k \<in> set columns \<and> k \<noteq> ''id'' \<and> k \<noteq> ''hash'') kw"
    and d: "distinct (map fst kw)" and fresh: "map_of kw k = None"
    by (auto simp: map_of_eq_None_iff)
  from Cons.IH [OF rest d, of "r(k := v)"]
  obtain r' where r': "init_attrs kw (r(k := v)) = Inr r'"
    "\<forall>c. r' c = (case map_of kw c of None \<Rightarrow> (r(k := v)) c | Some w \<Rightarrow> w)"
    by blast
  have "init_attrs (a # kw) r = Inr r'" using a ok r' by simp
  moreover have "\<forall>c. r' c = (case map_of (a # kw) c of None \<Rightarrow> r c | Some w \<Rightarrow> w)"
    using a r'(2) fresh by (auto split: option.splits)
  ultimately show ?case by blast
qed

lemma set_json_fields_ok:
  "\<forall>k \<in> set ks. (case dget td k (PList []) of PDate d \<Rightarrow> False | _ \<Rightarrow> True) \<Longrightarrow>
   \<exists>r'. set_json_fields L td ks r = Inr r' \<and> (\<forall>c. c \<notin> set ks \<longrightarrow> r' c = r c)"
proof (induction ks arbitrary: r)
  case Nil
  then show ?case by simp
next
  case (Cons k ks)
  let ?r = "r(k := PStr (dumps L (dget td k (PList []))))"
  from Cons.prems have now: "json_dumps L (dget td k (PList [])) = Inr (dumps L (dget td k (PList [])))"
    by (auto simp: json_dumps_def split: pyval.splits)
  from Cons.prems have rest: "\<forall>k \<in> set ks. (case dget td k (PList []) of PDate d \<Rightarrow> False | _ \<Rightarrow> True)"
    by simp
  from Cons.IH [OF rest, of ?r]
  obtain r' where r': "set_json_fields L td ks ?r = Inr r'" "\<forall>c. c \<notin> set ks \<longrightarrow> r' c = ?r c"
    by blast
  have "set_json_fields L td (k # ks) r = Inr r'"
    using now r'(1) by simp
  moreover have "\<forall>c. c \<notin> set (k # ks) \<longrightarrow> r' c = r c"
    using r'(2) by simp
  ultimately show ?case by blast
qed

lemma set_attrs_ok:
  "list_all (\<lambda>(k, v). k \<in> set columns \<and>
      (k \<in> set json_fields \<longrightarrow> (case v of PDate d \<Rightarrow> False | _ \<Rightarrow> True))) td \<Longrightarrow>
   distinct (map fst td) \<Longrightarrow>
   \<exists>r'. set_attrs L td r = Inr r' \<and>
     (\<forall>k. r' k = (case map_of td k of None \<Rightarrow> r k | Some v \<Rightarrow> stored_value L k v))"
proof (induction td arbitrary: r)
  case Nil
  then show ?case by simp
next
  case (Cons a td)
  obtain k v where a: "a = (k, v)" by (cases a)
  let ?w = "stored_value L k v"
  from Cons.prems a have col: "k \<in> set columns"
    and js: "k \<in> set json_fields \<Longrightarrow> (case v of PDate d \<Rightarrow> False | _ \<Rightarrow> True)"
    and rest: "list_all (\<lambda>(k, v). k \<in> set columns \<and>
      (k \<in> set json_fields \<longrightarrow> (case v of PDate d \<Rightarrow> False | _ \<Rightarrow> True))) td"
    and d: "distinct (map fst td)" and fresh: "map_of td k = None"
    by (auto simp: map_of_eq_None_iff)
  have step: "set_attrs L (a # td) r = set_attrs L td (r(k := ?w))"
  proof (cases "k \<in> set json_fields")
    case True
    with js have "json_dumps L (if truthy v then v else PList []) =
        Inr (dumps L (if truthy v then v else PList []))"
      by (auto simp: json_dumps_def split: pyval.splits)
    with True a col show ?thesis by (simp add: stored_value_def setattr_def)
  next
    case False
    with a col show ?thesis by (simp add: stored_value_def setattr_def)
  qed
  from Cons.IH [OF rest d, of "r(k := ?w)"]
  obtain r' where r': "set_attrs L td (r(k := ?w)) = Inr r'"
    "\<forall>c. r' c = (case map_of td c of None \<Rightarrow> (r(k := ?w)) c | Some u \<Rightarrow> stored_value L c u)"
    by blast
  have "\<forall>c. r' c = (case map_of (a # td) c of None \<Rightarrow> r c | Some u \<Rightarrow> stored_value L c u)"
    using a r'(2) fresh by (auto split: option.splits)
  with step r'(1) show ?case by auto
qed


lemma raw_record_keys:
  "raw_record td \<Longrightarrow> (k, v) \<in> set td \<Longrightarrow>
     k \<in> set columns \<and> k \<notin> set storage_fields \<and>
     (k \<in> set json_fields \<longrightarrow> (case v of PDate d \<Rightarrow> False | _ \<Rightarrow> True))"
  by (auto simp: raw_record_def list_all_iff)

lemma map_of_filter_keys:
  "P k \<Longrightarrow> map_of (filter (\<lambda>(k, v). P k) td) k = map_of td k"
  by (induction td) auto

lemma new_tender_ok:
  assumes "raw_record td"
  shows "\<exists>r. new_tender L now td h = Inr r \<and> r ''id'' = PStr (primary_key L td) \<and>
           r ''hash'' = PStr h \<and> r ''tender_id'' = dget td ''tender_id'' PNone"
proof -
  let ?kw = "filter (\<lambda>(k, v). k \<notin> set json_fields) td"
  let ?r0 = "(tender_defaults now)(''id'' := PStr (primary_key L td), ''hash'' := PStr h)"
  have keys: "list_all (\<lambda>(k, v). k \<in> set columns \<and> k \<noteq> ''id'' \<and> k \<noteq> ''hash'') ?kw"
    using raw_record_keys [OF assms] by (auto simp: list_all_iff storage_fields_def)
  have dist: "distinct (map fst ?kw)"
    using assms by (simp add: raw_record_def distinct_map_filter)
  from init_attrs_ok [OF keys dist, of ?r0]
  obtain r1 where r1: "init_attrs ?kw ?r0 = Inr r1"
    "\<forall>k. r1 k = (case map_of ?kw k of None \<Rightarrow> ?r0 k | Some v \<Rightarrow> v)"
    by blast
  have js: "\<forall>k \<in> set json_fields. (case dget td k (PList []) of PDate d \<Rightarrow> False | _ \<Rightarrow> True)"
  proof
    fix k assume k: "k \<in> set json_fields"
    show "case dget td k (PList []) of PDate d \<Rightarrow> False | _ \<Rightarrow> True"
    proof (cases "map_of td k")
      case None
      then show ?thesis by (simp add: dget_def)
    next
      case (Some v)
      then have "(k, v) \<in> set td" by (rule map_of_SomeD)
      from raw_record_keys [OF assms this] k Some show ?thesis by (simp add: dget_def)
    qed
  qed
  from set_json_fields_ok [OF js, of L r1]
  obtain r where r: "set_json_fields L td json_fields r1 = Inr r"
    "\<forall>c. c \<notin> set json_fields \<longrightarrow> r c = r1 c"
    by blast
  have new: "new_tender L now td h = Inr r"
    using r1(1) r(1) by (simp add: new_tender_def)
  have noid: "map_of ?kw ''id'' = None" "map_of ?kw ''hash'' = None"
    using keys by (auto simp: map_of_eq_None_iff list_all_iff)
  have tid: "map_of ?kw ''tender_id'' = map_of td ''tender_id''"
    using map_of_filter_keys [of "\<lambda>k. k \<notin> set json_fields" "''tender_id''" td]
    by (simp add: json_fields_def)
  have "r ''id'' = PStr (primary_key L td)"
    using r(2) r1(2) noid by (simp add: json_fields_def)
  moreover have "r ''hash'' = PStr h"
    using r(2) r1(2) noid by (simp add: json_fields_def)
  moreover have "r ''tender_id'' = dget td ''tender_id'' PNone"
    using r(2) r1(2) tid
    by (simp add: json_fields_def dget_def tender_defaults_def split: option.splits)
  ultimately show ?thesis using new by blast
qed

lemma find_append_miss:
  "find P xs = None \<Longrightarrow> find P (xs @ ys) = find P ys"
  by (induction xs) (auto split: if_splits)

text \<open>
  C2 (as amended). The lookup is by \<^verbatim>\<open>tender_id\<close> alone, so a record is created
  only when no stored row has its tender id, whatever the portal of that row. For every
  raw record with a non-empty tender id such that no stored row has that tender id and no
  stored row has the record's derived primary key, the first upsert returns
  \<^verbatim>\<open>True\<close> (created, one row added) and a second upsert of the same record returns
  \<^verbatim>\<open>False\<close> and writes nothing: the table after both calls is the table after the
  first.
\<close>

theorem upsert_twice_idempotent:
  assumes "raw_record td"
    and "truthy (dget td ''tender_id'' PNone)"
    and "constraints_ok db"
    and "\<forall>r \<in> set db. r ''tender_id'' \<noteq> dget td ''tender_id'' PNone"
    and "\<forall>r \<in> set db. r ''id'' \<noteq> PStr (primary_key L td)"
  shows "snd (save_tender_to_db L now db td) = True
       \<and> snd (save_tender_to_db L now' (fst (save_tender_to_db L now db td)) td) = False
       \<and> fst (save_tender_to_db L now' (fst (save_tender_to_db L now db td)) td)
           = fst (save_tender_to_db L now db td)
       \<and> length (fst (save_tender_to_db L now db td)) = Suc (length db)"
proof -
  let ?tid = "dget td ''tender_id'' PNone"
  let ?h = "md5_json L td"
  from new_tender_ok [OF assms(1), of L now ?h]
  obtain r where r: "new_tender L now td ?h = Inr r" "r ''id'' = PStr (primary_key L td)"
    "r ''hash'' = PStr ?h" "r ''tender_id'' = ?tid"
    by blast
  have miss: "find (\<lambda>r. r ''tender_id'' = ?tid) db = None"
    using assms(4) by (simp add: find_None_iff)
  have nn: "?tid \<noteq> PNone" using assms(2) by auto
  have ok': "constraints_ok (db @ [r])"
    using assms(3,4,5) r(2,4) nn by (auto simp: constraints_ok_def)
  have first: "save_tender_to_db L now db td = (db @ [r], True)"
    using assms(2) miss r(1) ok' by (simp add: save_tender_to_db_def commit_def)
  have hit: "find (\<lambda>r. r ''tender_id'' = ?tid) (db @ [r]) = Some r"
    using find_append_miss [OF miss, of "[r]"] r(4) by simp
  have second: "save_tender_to_db L now' (db @ [r]) td = (db @ [r], False)"
    using assms(2) hit r(3) by (simp add: save_tender_to_db_def)
  show ?thesis using first second by simp
qed


theorem upsert_twice_idempotent_witness:
  "snd (save_tender_to_db demo_lib 10 []
          [(''tender_id'', PStr ''X1''), (''portal'', PStr ''MERX''),
           (''title'', PStr ''Agile training''), (''categories'', PList [''agile-scrum''])]) = True
   \<and> snd (save_tender_to_db demo_lib 20
          (fst (save_tender_to_db demo_lib 10 []
             [(''tender_id'', PStr ''X1''), (''portal'', PStr ''MERX''),
              (''title'', PStr ''Agile training''), (''categories'', PList [''agile-scrum''])]))
          [(''tender_id'', PStr ''X1''), (''portal'', PStr ''MERX''),
           (''title'', PStr ''Agile training''), (''categories'', PList [''agile-scrum''])]) = False
   \<and> fst (save_tender_to_db demo_lib 20
          (fst (save_tender_to_db demo_lib 10 []
             [(''tender_id'', PStr ''X1''), (''portal'', PStr ''MERX''),
              (''title'', PStr ''Agile training''), (''categories'', PList [''agile-scrum''])]))
          [(''tender_id'', PStr ''X1''), (''portal'', PStr ''MERX''),
           (''title'', PStr ''Agile training''), (''categories'', PList [''agile-scrum''])])
       = fst (save_tender_to_db demo_lib 10 []
             [(''tender_id'', PStr ''X1''), (''portal'', PStr ''MERX''),
              (''title'', PStr ''Agile training''), (''categories'', PList [''agile-scrum''])])"
proof -
  let ?td = "[(''tender_id'', PStr ''X1''), (''portal'', PStr ''MERX''),
              (''title'', PStr ''Agile training''), (''categories'', PList [''agile-scrum''])]"
  have raw: "raw_record ?td"
    by (simp add: raw_record_def columns_def storage_fields_def json_fields_def)
  have tid: "truthy (dget ?td ''tender_id'' PNone)" by (simp add: dget_def)
  have ok: "constraints_ok []" by (simp add: constraints_ok_def)
  have e1: "\<forall>r \<in> set []. r ''tender_id'' \<noteq> dget ?td ''tender_id'' PNone" by simp
  have e2: "\<forall>r \<in> set []. r ''id'' \<noteq> PStr (primary_key demo_lib ?td)" by simp
  from upsert_twice_idempotent [OF raw tid ok e1 e2, of 10 20]
  show ?thesis by blast
qed

text \<open>
  The claim as stated (identity = portal and tender id) fails: the table holds tender
  T-100 of the City of Ottawa, the record is tender T-100 of the City of Edmonton. No
  stored row has the record's identity, yet the upsert finds the Ottawa row by tender id
  and returns \<^verbatim>\<open>False\<close>.
\<close>

theorem upsert_created_counterexample:
  "filter (\<lambda>r. r ''portal'' = PStr ''City of Edmonton'' \<and> r ''tender_id'' = PStr ''T-100'')
      [(\<lambda>c. PNone)(''id'' := PStr ''City of Ottawa_T-100'', ''tender_id'' := PStr ''T-100'',
                   ''portal'' := PStr ''City of Ottawa'', ''title'' := PStr ''Leadership course'',
                   ''hash'' := PStr ''stale'')] = []
   \<and> snd (save_tender_to_db demo_lib 10
        [(\<lambda>c. PNone)(''id'' := PStr ''City of Ottawa_T-100'', ''tender_id'' := PStr ''T-100'',
                     ''portal'' := PStr ''City of Ottawa'', ''title'' := PStr ''Leadership course'',
                     ''hash'' := PStr ''stale'')]
        [(''tender_id'', PStr ''T-100''), (''portal'', PStr ''City of Edmonton''),
         (''title'', PStr ''Coaching workshop'')]) = False"
  by (simp add: save_tender_to_db_def dget_def demo_lib_def demo_str_def json_fields_def
      columns_def setattr_def commit_def constraints_ok_def)

lemma find_unique:
  "distinct (filter (\<lambda>v. v \<noteq> n) (map f xs)) \<Longrightarrow> r \<in> set xs \<Longrightarrow> f r = v \<Longrightarrow> v \<noteq> n \<Longrightarrow>
     find (\<lambda>x. f x = v) xs = Some r \<and>
     replace_first (\<lambda>x. f x = v) r' xs = map (\<lambda>x. if x = r then r' else x) xs"
proof (induction xs)
  case Nil
  then show ?case by simp
next
  case (Cons x xs)
  show ?case
  proof (cases "f x = v")
    case True
    with Cons.prems have "v \<notin> f ` set xs" by auto
    then have notin: "\<forall>y \<in> set xs. f y \<noteq> v" by blast
    with Cons.prems have "x = r" by auto
    moreover from notin Cons.prems have "\<forall>y \<in> set xs. y \<noteq> r" by auto
    then have "map (\<lambda>x. if x = r then r' else x) xs = xs"
      by (simp add: map_idI)
    ultimately show ?thesis using True by simp
  next
    case False
    with Cons.prems have "r \<in> set xs" "x \<noteq> r" by auto
    moreover from Cons.prems False have "distinct (filter (\<lambda>v. v \<noteq> n) (map f xs))"
      by (auto split: if_splits)
    ultimately show ?thesis using Cons.IH Cons.prems False by simp
  qed
qed

lemma constraints_ok_map:
  assumes "constraints_ok db" and "r' ''id'' = r ''id''" and "r' ''tender_id'' = r ''tender_id''"
  shows "constraints_ok (map (\<lambda>x. if x = r then r' else x) db)"
proof -
  have "map (\<lambda>x. x ''id'') (map (\<lambda>x. if x = r then r' else x) db) = map (\<lambda>x. x ''id'') db"
    using assms(2) by (induction db) auto
  moreover have "map (\<lambda>x. x ''tender_id'') (map (\<lambda>x. if x = r then r' else x) db)
      = map (\<lambda>x. x ''tender_id'') db"
    using assms(3) by (induction db) auto
  ultimately show ?thesis using assms(1) unfolding constraints_ok_def by metis
qed

text \<open>
  C3. On re-ingesting a record whose tender id is already stored (under the schema's
  unique constraint the lookup then finds the row of the record's identity): if the
  content hash equals the stored hash, the table is left as it is; if the hash differs,
  the row is rewritten in place, every field the raw record carries is overwritten with
  the record's value (JSON text for the list fields), \<^verbatim>\<open>hash\<close> and
  \<^verbatim>\<open>last_updated\<close> are refreshed, and \<^verbatim>\<open>id\<close>, \<^verbatim>\<open>download_count\<close> and
  every other column the record does not carry keep their previous values. No other row
  changes.
\<close>

theorem reingest_frame:
  assumes "constraints_ok db"
    and "existing \<in> set db"
    and "existing ''tender_id'' = dget td ''tender_id'' PNone"
    and "truthy (dget td ''tender_id'' PNone)"
  shows "(existing ''hash'' = PStr (md5_json L td) \<longrightarrow> save_tender_to_db L now db td = (db, False))
     \<and> (existing ''hash'' \<noteq> PStr (md5_json L td) \<and> raw_record td \<longrightarrow>
          (\<exists>r'. save_tender_to_db L now db td = (map (\<lambda>x. if x = existing then r' else x) db, False)
             \<and> (\<forall>(k, v) \<in> set td. r' k = stored_value L k v)
             \<and> r' ''hash'' = PStr (md5_json L td)
             \<and> r' ''last_updated'' = PDate now
             \<and> r' ''id'' = existing ''id''
             \<and> r' ''download_count'' = existing ''download_count''
             \<and> (\<forall>c. c \<notin> fst ` set td \<and> c \<noteq> ''hash'' \<and> c \<noteq> ''last_updated'' \<longrightarrow> r' c = existing c)))"
proof -
  let ?tid = "dget td ''tender_id'' PNone"
  let ?h = "md5_json L td"
  have nn: "?tid \<noteq> PNone" using assms(4) by auto
  have d: "distinct (filter (\<lambda>v. v \<noteq> PNone) (map (\<lambda>r. r ''tender_id'') db))"
    using assms(1) by (simp add: constraints_ok_def)
  note fu = find_unique [OF d assms(2) assms(3) nn]
  have same: "save_tender_to_db L now db td = (db, False)" if "existing ''hash'' = PStr ?h"
    using that assms(4) fu by (simp add: save_tender_to_db_def)
  have diff: "\<exists>r'. save_tender_to_db L now db td = (map (\<lambda>x. if x = existing then r' else x) db, False)
             \<and> (\<forall>(k, v) \<in> set td. r' k = stored_value L k v)
             \<and> r' ''hash'' = PStr ?h
             \<and> r' ''last_updated'' = PDate now
             \<and> r' ''id'' = existing ''id''
             \<and> r' ''download_count'' = existing ''download_count''
             \<and> (\<forall>c. c \<notin> fst ` set td \<and> c \<noteq> ''hash'' \<and> c \<noteq> ''last_updated'' \<longrightarrow> r' c = existing c)"
    if neq: "existing ''hash'' \<noteq> PStr ?h" and raw: "raw_record td"
  proof -
    have keys: "list_all (\<lambda>(k, v). k \<in> set columns \<and>
        (k \<in> set json_fields \<longrightarrow> (case v of PDate d \<Rightarrow> False | _ \<Rightarrow> True))) td"
      using raw by (auto simp: raw_record_def list_all_iff)
    have dist: "distinct (map fst td)" using raw by (simp add: raw_record_def)
    from set_attrs_ok [OF keys dist, of L existing]
    obtain r1 where r1: "set_attrs L td existing = Inr r1"
      "\<forall>k. r1 k = (case map_of td k of None \<Rightarrow> existing k | Some v \<Rightarrow> stored_value L k v)"
      by blast
    let ?r' = "r1(''hash'' := PStr ?h, ''last_updated'' := PDate now)"
    have nokey: "map_of td c = None" if "c \<in> set storage_fields" for c
    proof (cases "map_of td c")
      case None
      then show ?thesis .
    next
      case (Some v)
      then have "(c, v) \<in> set td" by (rule map_of_SomeD)
      with raw_record_keys [OF raw this] that show ?thesis by simp
    qed
    have id: "?r' ''id'' = existing ''id''"
      using r1(2) nokey [of "''id''"] by (simp add: storage_fields_def)
    have dc: "?r' ''download_count'' = existing ''download_count''"
      using r1(2) nokey [of "''download_count''"] by (simp add: storage_fields_def)
    have tid_in: "map_of td ''tender_id'' = Some ?tid"
      using nn by (auto simp: dget_def split: option.splits)
    have tid: "?r' ''tender_id'' = existing ''tender_id''"
      using r1(2) tid_in assms(3) by (simp add: stored_value_def json_fields_def)
    have ok': "constraints_ok (map (\<lambda>x. if x = existing then ?r' else x) db)"
      by (rule constraints_ok_map [OF assms(1) id tid])
    have res: "save_tender_to_db L now db td = (map (\<lambda>x. if x = existing then ?r' else x) db, False)"
      using assms(4) fu neq r1(1) ok' by (simp add: save_tender_to_db_def commit_def)
    have fields: "\<forall>(k, v) \<in> set td. ?r' k = stored_value L k v"
    proof (clarify)
      fix k v assume kv: "(k, v) \<in> set td"
      with dist have "map_of td k = Some v" by simp
      moreover from raw_record_keys [OF raw kv] have "k \<noteq> ''hash''" "k \<noteq> ''last_updated''"
        by (auto simp: storage_fields_def)
      ultimately show "?r' k = stored_value L k v" using r1(2) by simp
    qed
    have others: "\<forall>c. c \<notin> fst ` set td \<and> c \<noteq> ''hash'' \<and> c \<noteq> ''last_updated'' \<longrightarrow> ?r' c = existing c"
      using r1(2) by (auto simp: map_of_eq_None_iff [symmetric] simp del: map_of_eq_None_iff)
    show ?thesis
      using res fields id dc others by (intro exI [of _ ?r']) simp
  qed
  show ?thesis using same diff by blast
qed


theorem reingest_frame_witness:
  "snd (save_tender_to_db demo_lib 50
      [(\<lambda>c. PNone)(''id'' := PStr ''MERX_X1'', ''tender_id'' := PStr ''X1'',
          ''title'' := PStr ''Agile training'', ''hash'' := PStr ''stale'',
          ''download_count'' := PNum 3)]
      [(''tender_id'', PStr ''X1''), (''portal'', PStr ''MERX''),
       (''title'', PStr ''Agile training, amended'')]) = False
   \<and> hd (fst (save_tender_to_db demo_lib 50
      [(\<lambda>c. PNone)(''id'' := PStr ''MERX_X1'', ''tender_id'' := PStr ''X1'',
          ''title'' := PStr ''Agile training'', ''hash'' := PStr ''stale'',
          ''download_count'' := PNum 3)]
      [(''tender_id'', PStr ''X1''), (''portal'', PStr ''MERX''),
       (''title'', PStr ''Agile training, amended'')])) ''title'' = PStr ''Agile training, amended''
   \<and> hd (fst (save_tender_to_db demo_lib 50
      [(\<lambda>c. PNone)(''id'' := PStr ''MERX_X1'', ''tender_id'' := PStr ''X1'',
          ''title'' := PStr ''Agile training'', ''hash'' := PStr ''stale'',
          ''download_count'' := PNum 3)]
      [(''tender_id'', PStr ''X1''), (''portal'', PStr ''MERX''),
       (''title'', PStr ''Agile training, amended'')])) ''last_updated'' = PDate 50
   \<and> hd (fst (save_tender_to_db demo_lib 50
      [(\<lambda>c. PNone)(''id'' := PStr ''MERX_X1'', ''tender_id'' := PStr ''X1'',
          ''title'' := PStr ''Agile training'', ''hash'' := PStr ''stale'',
          ''download_count'' := PNum 3)]
      [(''tender_id'', PStr ''X1''), (''portal'', PStr ''MERX''),
       (''title'', PStr ''Agile training, amended'')])) ''download_count'' = PNum 3
   \<and> hd (fst (save_tender_to_db demo_lib 50
      [(\<lambda>c. PNone)(''id'' := PStr ''MERX_X1'', ''tender_id'' := PStr ''X1'',
          ''title'' := PStr ''Agile training'', ''hash'' := PStr ''stale'',
          ''download_count'' := PNum 3)]
      [(''tender_id'', PStr ''X1''), (''portal'', PStr ''MERX''),
       (''title'', PStr ''Agile training, amended'')])) ''id'' = PStr ''MERX_X1''"
proof -
  let ?row = "(\<lambda>c. PNone)(''id'' := PStr ''MERX_X1'', ''tender_id'' := PStr ''X1'',
          ''title'' := PStr ''Agile training'', ''hash'' := PStr ''stale'',
          ''download_count'' := PNum 3)"
  let ?td = "[(''tender_id'', PStr ''X1''), (''portal'', PStr ''MERX''),
       (''title'', PStr ''Agile training, amended'')]"
  have ok: "constraints_ok [?row]" by (simp add: constraints_ok_def)
  have mem: "?row \<in> set [?row]" by simp
  have tid: "?row ''tender_id'' = dget ?td ''tender_id'' PNone" by (simp add: dget_def)
  have tr: "truthy (dget ?td ''tender_id'' PNone)" by (simp add: dget_def)
  have raw: "raw_record ?td"
    by (simp add: raw_record_def columns_def storage_fields_def json_fields_def)
  have neq: "?row ''hash'' \<noteq> PStr (md5_json demo_lib ?td)"
    by (simp add: demo_lib_def demo_str_def)
  from reingest_frame [OF ok mem tid tr, of demo_lib 50] neq raw
  obtain r' where r': "save_tender_to_db demo_lib 50 [?row] ?td
        = (map (\<lambda>x. if x = ?row then r' else x) [?row], False)"
      "\<forall>(k, v) \<in> set ?td. r' k = stored_value demo_lib k v"
      "r' ''last_updated'' = PDate 50" "r' ''id'' = ?row ''id''"
      "r' ''download_count'' = ?row ''download_count''"
    by blast
  from r'(2) have "r' ''title'' = PStr ''Agile training, amended''"
    by (simp add: stored_value_def json_fields_def)
  with r'(1,3,4,5) show ?thesis by simp
qed

section \<open>Properties of the query API\<close>

lemma replace_first_frame:
  "find P xs = Some t \<Longrightarrow>
     length (replace_first P (t(c := v)) xs) = length xs \<and>
     (\<forall>i < length xs. \<forall>c'. c' \<noteq> c \<longrightarrow> (replace_first P (t(c := v)) xs ! i) c' = (xs ! i) c') \<and>
     (\<forall>i < length xs. \<not> P (xs ! i) \<longrightarrow> replace_first P (t(c := v)) xs ! i = xs ! i)"
proof (induction xs)
  case Nil
  then show ?case by simp
next
  case (Cons x xs)
  show ?case
  proof (cases "P x")
    case True
    with Cons.prems have "x = t" by simp
    with True show ?thesis by (auto simp: nth_Cons split: nat.splits)
  next
    case False
    with Cons.prems have "find P xs = Some t" by simp
    from Cons.IH [OF this] False show ?thesis
      by (auto simp: nth_Cons split: nat.splits)
  qed
qed

lemma detail_frame:
  "length (fst (get_tender_detail db tid)) = length db \<and>
   (\<forall>i < length db. \<forall>c. c \<noteq> ''download_count'' \<longrightarrow> (fst (get_tender_detail db tid) ! i) c = (db ! i) c) \<and>
   (\<forall>i < length db. (db ! i) ''id'' \<noteq> PStr tid \<longrightarrow> fst (get_tender_detail db tid) ! i = db ! i)"
proof (cases "find (\<lambda>r. r ''id'' = PStr tid) db")
  case None
  then show ?thesis by (simp add: get_tender_detail_def)
next
  case (Some t)
  show ?thesis
  proof (cases "py_incr (t ''download_count'')")
    case (Inl e)
    with Some show ?thesis by (simp add: get_tender_detail_def)
  next
    case (Inr n)
    note rf = replace_first_frame [OF Some, of "''download_count''" n]
    show ?thesis
    proof (cases "constraints_ok (replace_first (\<lambda>r. r ''id'' = PStr tid) (t(''download_count'' := n)) db)")
      case True
      with Some Inr rf show ?thesis
        by (simp add: get_tender_detail_def commit_def)
    next
      case False
      with Some Inr show ?thesis by (simp add: get_tender_detail_def commit_def)
    qed
  qed
qed

text \<open>
  C9 (as amended). The list, statistics and CSV export endpoints leave the table as it
  is. The detail endpoint is not read-only: it increments the download counter of the row
  it returns and commits. It changes nothing else: the table keeps its length, every
  column other than \<^verbatim>\<open>download_count\<close> keeps its value in every row, and rows with
  another id are untouched; on a table that satisfies the schema's constraints the
  requested row's counter goes from \<open>n\<close> to \<open>n + 1\<close>.
\<close>

theorem query_api_frame:
  "fst (get_tenders ord q db) = db
   \<and> fst (get_statistics now db) = db
   \<and> fst (export_csv portal category db) = db
   \<and> length (fst (get_tender_detail db tid)) = length db
   \<and> (\<forall>i < length db. \<forall>c. c \<noteq> ''download_count'' \<longrightarrow>
         (fst (get_tender_detail db tid) ! i) c = (db ! i) c)
   \<and> (\<forall>i < length db. (db ! i) ''id'' \<noteq> PStr tid \<longrightarrow> fst (get_tender_detail db tid) ! i = db ! i)
   \<and> (\<forall>t n. constraints_ok db \<and> t \<in> set db \<and> t ''id'' = PStr tid \<and> t ''download_count'' = PNum n \<longrightarrow>
         get_tender_detail db tid =
           (map (\<lambda>x. if x = t then t(''download_count'' := PNum (n + 1)) else x) db,
            Inr (t(''download_count'' := PNum (n + 1)))))"
proof -
  have inc: "get_tender_detail db tid =
           (map (\<lambda>x. if x = t then t(''download_count'' := PNum (n + 1)) else x) db,
            Inr (t(''download_count'' := PNum (n + 1))))"
    if ok: "constraints_ok db" and mem: "t \<in> set db" and id: "t ''id'' = PStr tid"
      and dc: "t ''download_count'' = PNum n" for t n
  proof -
    let ?t' = "t(''download_count'' := PNum (n + 1))"
    have d: "distinct (filter (\<lambda>v. v \<noteq> PNone) (map (\<lambda>r. r ''id'') db))"
      using ok by (simp add: constraints_ok_def)
    note fu = find_unique [OF d mem id, of ?t']
    have "?t' ''id'' = t ''id''" "?t' ''tender_id'' = t ''tender_id''" by simp_all
    from constraints_ok_map [OF ok this]
    have "constraints_ok (map (\<lambda>x. if x = t then ?t' else x) db)" .
    with fu dc show ?thesis by (simp add: get_tender_detail_def commit_def)
  qed
  show ?thesis
    using detail_frame [of db tid] inc
    by (simp add: get_tenders_def get_statistics_def export_csv_def Let_def)
qed

theorem query_api_frame_witness:
  "length (fst (get_tender_detail
      [(\<lambda>c. PNone)(''id'' := PStr ''MERX_X1'', ''tender_id'' := PStr ''X1'',
                   ''title'' := PStr ''Agile training'', ''download_count'' := PNum 0)]
      ''MERX_X1'')) = 1
   \<and> get_tender_detail
      [(\<lambda>c. PNone)(''id'' := PStr ''MERX_X1'', ''tender_id'' := PStr ''X1'',
                   ''title'' := PStr ''Agile training'', ''download_count'' := PNum 0)]
      ''MERX_X1''
     = ([(\<lambda>c. PNone)(''id'' := PStr ''MERX_X1'', ''tender_id'' := PStr ''X1'',
                   ''title'' := PStr ''Agile training'', ''download_count'' := PNum 1)],
        Inr ((\<lambda>c. PNone)(''id'' := PStr ''MERX_X1'', ''tender_id'' := PStr ''X1'',
                   ''title'' := PStr ''Agile training'', ''download_count'' := PNum 1)))"
proof -
  let ?t = "(\<lambda>c. PNone)(''id'' := PStr ''MERX_X1'', ''tender_id'' := PStr ''X1'',
                   ''title'' := PStr ''Agile training'', ''download_count'' := PNum 0)"
  note th = query_api_frame [of id undefined "[?t]" 0 None None "''MERX_X1''"]
  have ok: "constraints_ok [?t]" by (simp add: constraints_ok_def)
  have mem: "?t \<in> set [?t]" by simp
  have i: "?t ''id'' = PStr ''MERX_X1''" by simp
  have dc: "?t ''download_count'' = PNum 0" by simp
  from th have L: "length (fst (get_tender_detail [?t] ''MERX_X1'')) = length [?t]" by blast
  from th ok mem i dc have "get_tender_detail [?t] ''MERX_X1'' =
           (map (\<lambda>x. if x = ?t then ?t(''download_count'' := PNum (0 + 1)) else x) [?t],
            Inr (?t(''download_count'' := PNum (0 + 1))))" by blast
  with L show ?thesis by simp
qed

text \<open>
  The claim as stated fails for the detail endpoint: one request for a stored tender
  changes its \<^verbatim>\<open>download_count\<close> from 0 to 1.
\<close>

theorem detail_not_read_only_counterexample:
  "hd [(\<lambda>c. PNone)(''id'' := PStr ''MERX_X1'', ''tender_id'' := PStr ''X1'',
                   ''title'' := PStr ''Agile training'', ''download_count'' := PNum 0)]
      ''download_count'' = PNum 0
   \<and> hd (fst (get_tender_detail
      [(\<lambda>c. PNone)(''id'' := PStr ''MERX_X1'', ''tender_id'' := PStr ''X1'',
                   ''title'' := PStr ''Agile training'', ''download_count'' := PNum 0)]
      ''MERX_X1'')) ''download_count'' = PNum 1"
  by (simp add: get_tender_detail_def commit_def constraints_ok_def)

section \<open>Properties of the source extractors\<close>

lemma keep_relevant_related:
  "t \<in> set (keep_relevant L items) \<Longrightarrow> is_training_related L t \<and> Some t \<in> set items"
  by (induction L items rule: keep_relevant.induct) (auto split: option.splits if_splits)

lemma keep_relevant_length: "length (keep_relevant L items) \<le> length items"
  by (induction L items rule: keep_relevant.induct) (auto split: option.splits)

lemma keep_relevant_replicate:
  "t \<noteq> [] \<Longrightarrow> is_training_related L t \<Longrightarrow> keep_relevant L (replicate n (Some t)) = replicate n t"
  by (induction n) auto

lemma merx_pages_related:
  "t \<in> set (merx_pages L n pages) \<Longrightarrow> is_training_related L t"
  by (induction L n pages rule: merx_pages.induct) (auto dest: keep_relevant_related split: if_splits)

lemma seao_pages_related:
  "t \<in> set (seao_pages L n pages) \<Longrightarrow> is_training_related L t"
  by (induction L n pages rule: seao_pages.induct) (auto dest: keep_relevant_related split: if_splits)

lemma canadabuys_related:
  "t \<in> set (scan_canadabuys L urls) \<Longrightarrow> is_training_related L t"
  by (induction L urls rule: scan_canadabuys.induct) (auto dest: keep_relevant_related)

lemma scanner_records_related:
  "t \<in> set (scan_canadabuys L urls) \<union> set (scan_merx L pages) \<union> set (scan_seao L pages')
       \<union> set (scan_ariba_portal L es) \<union> set (scan_biddingo L os) \<union> set (scan_bcbid L trs)
   \<Longrightarrow> is_training_related L t"
  by (auto simp: scan_merx_def scan_seao_def scan_ariba_portal_def scan_biddingo_def scan_bcbid_def
      dest: keep_relevant_related merx_pages_related seao_pages_related canadabuys_related)

text \<open>
  C7. Every source extractor applies the training-relevance filter before yielding:
  every record it yields has a relevance keyword in its title and description, and
  records without one are discarded at the source. The scanners of
  \<^verbatim>\<open>ProcurementScanner\<close> do so (\<open>scanner_records_related\<close>); the scrapers of
  \<^verbatim>\<open>scrapers.py\<close> do not. Evaluated here: \<^verbatim>\<open>scan_alberta_purchasing\<close> on a results
  table with one road-paving tender yields that tender, which is not training-related,
  while \<^verbatim>\<open>scan_bcbid\<close> discards a record with the same title.
\<close>

theorem alberta_yields_unrelated:
  "scan_alberta_purchasing demo_lib
     (Fetched (Some
        [\<lparr>cells = [''Number'', ''Title'', ''Organization'', ''Posted'', ''Closing''], link = None\<rparr>,
         \<lparr>cells = [''AB-2024-017'', ''Road paving and culvert replacement'',
                   ''Alberta Transportation'', [], []], link = None\<rparr>]))
   = [[(''tender_id'', PStr ''AB-2024-017''),
       (''title'', PStr ''Road paving and culvert replacement''),
       (''organization'', PStr ''Alberta Transportation''),
       (''portal'', PStr ''Alberta Purchasing Connection''),
       (''value'', PNum 0),
       (''closing_date'', PNone),
       (''posted_date'', PNone),
       (''location'', PStr ''Alberta''),
       (''tender_url'', PStr ''https://vendor.purchasingconnection.ca/''),
       (''description'', PStr []),
       (''categories'', PList []),
       (''keywords'', PList [])]]
   \<and> \<not> is_training_related demo_lib
       [(''tender_id'', PStr ''AB-2024-017''),
       (''title'', PStr ''Road paving and culvert replacement''),
       (''organization'', PStr ''Alberta Transportation''),
       (''portal'', PStr ''Alberta Purchasing Connection''),
       (''value'', PNum 0),
       (''closing_date'', PNone),
       (''posted_date'', PNone),
       (''location'', PStr ''Alberta''),
       (''tender_url'', PStr ''https://vendor.purchasingconnection.ca/''),
       (''description'', PStr []),
       (''categories'', PList []),
       (''keywords'', PList [])]
   \<and> scan_bcbid demo_lib
       [None,
        Some [(''tender_id'', PStr ''AB-2024-017''),
              (''title'', PStr ''Road paving and culvert replacement''),
              (''description'', PStr [])]] = []"
proof -
  have a: "\<not> is_training_related demo_lib
       [(''tender_id'', PStr ''AB-2024-017''),
       (''title'', PStr ''Road paving and culvert replacement''),
       (''organization'', PStr ''Alberta Transportation''),
       (''portal'', PStr ''Alberta Purchasing Connection''),
       (''value'', PNum 0),
       (''closing_date'', PNone),
       (''posted_date'', PNone),
       (''location'', PStr ''Alberta''),
       (''tender_url'', PStr ''https://vendor.purchasingconnection.ca/''),
       (''description'', PStr []),
       (''categories'', PList []),
       (''keywords'', PList [])]"
    by code_simp
  have b: "scan_bcbid demo_lib
       [None,
        Some [(''tender_id'', PStr ''AB-2024-017''),
              (''title'', PStr ''Road paving and culvert replacement''),
              (''description'', PStr [])]] = []"
    by code_simp
  show ?thesis
    using a b
    by (simp add: scan_alberta_purchasing_def alberta_tender_def py_parse_date_def)
qed

lemma merx_pages_take: "merx_pages L n pages = merx_pages L n (take (5 - n) pages)"
proof (induction L n pages rule: merx_pages.induct)
  case (1 L page_count)
  then show ?case by simp
next
  case (2 L page_count opportunities later)
  show ?case
  proof (cases "page_count < 5")
    case True
    then obtain k where k: "5 - page_count = Suc k" "5 - Suc page_count = k"
      by (cases "5 - page_count") auto
    with True 2 show ?thesis by simp
  next
    case False
    then show ?thesis by simp
  qed
qed

lemma seao_pages_take: "seao_pages L n pages = seao_pages L n (take (3 - n) pages)"
proof (induction L n pages rule: seao_pages.induct)
  case (1 L page_count)
  then show ?case by simp
next
  case (2 L page_count opportunities later)
  show ?case
  proof (cases "page_count < 3")
    case True
    then obtain k where k: "3 - page_count = Suc k" "3 - Suc page_count = k"
      by (cases "3 - page_count") auto
    with True 2 show ?thesis by simp
  next
    case False
    then show ?thesis by simp
  qed
qed

lemma alberta_rows_length: "length (alberta_rows L trs) \<le> length trs"
  by (induction L trs rule: alberta_rows.induct) auto

lemma collect_length: "length (collect items) \<le> length items"
  by (induction items rule: collect.induct) auto

lemma collect_take: "length (collect (take n items)) \<le> n"
  using collect_length [of "take n items"] by simp

text \<open>
  C8 (as amended). Every extractor other than \<^verbatim>\<open>scan_canadabuys\<close>, \<^verbatim>\<open>scan_merx\<close> and
  \<^verbatim>\<open>scan_seao\<close> slices its list of upstream items and yields at most that many records
  per invocation, however many items the source offers: at most 20 for
  \<^verbatim>\<open>scan_ariba_portal\<close> and \<^verbatim>\<open>scan_ontario_health\<close>, at most 30 for
  \<^verbatim>\<open>scan_biddingo\<close>, \<^verbatim>\<open>scan_bcbid\<close> and the other sixteen extractors of
  \<^verbatim>\<open>scrapers.py\<close>. \<^verbatim>\<open>scan_merx\<close> and \<^verbatim>\<open>scan_seao\<close> bound the pages they read (5
  and 3), not the items of a page, and \<^verbatim>\<open>scan_canadabuys\<close> yields every relevant row
  of both CSV files.
\<close>

theorem extractor_caps:
  "length (scan_ariba_portal L tender_elements) \<le> 20
   \<and> length (scan_biddingo L opportunities) \<le> 30
   \<and> length (scan_bcbid L trs) \<le> 30
   \<and> length (scan_alberta_purchasing L page) \<le> 30
   \<and> length (scan_saskatchewan_tenders sask_page) \<le> 30
   \<and> length (scan_manitoba_tenders manitoba_response) \<le> 30
   \<and> length (scan_ontario_tenders ontario_page) \<le> 30
   \<and> length (scan_ns_tenders ns_page) \<le> 30
   \<and> length (scan_ottawa_bids ottawa_page) \<le> 30
   \<and> length (scan_edmonton_bids edmonton_page) \<le> 30
   \<and> length (scan_calgary_procurement calgary_page) \<le> 30
   \<and> length (scan_winnipeg_bids winnipeg_response) \<le> 30
   \<and> length (scan_vancouver_procurement vancouver_page) \<le> 30
   \<and> length (scan_halifax_procurement halifax_page) \<le> 30
   \<and> length (scan_regina_procurement regina_page) \<le> 30
   \<and> length (scan_nbon_newbrunswick nbon_page) \<le> 30
   \<and> length (scan_pei_tenders pei_response) \<le> 30
   \<and> length (scan_nl_procurement nl_response) \<le> 30
   \<and> length (scan_buybc_health buybc_page) \<le> 30
   \<and> length (scan_ontario_health mohltc_page) \<le> 20
   \<and> scan_merx L pages = scan_merx L (take 5 pages)
   \<and> scan_seao L pages = scan_seao L (take 3 pages)
   \<and> scan_canadabuys L [Fetched tenders_csv, Fetched awards_csv]
        = keep_relevant L tenders_csv @ keep_relevant L awards_csv"
proof -
  have "length (scan_ariba_portal L tender_elements) \<le> 20"
    using keep_relevant_length [of L "take 20 tender_elements"]
    by (simp add: scan_ariba_portal_def)
  moreover have "length (scan_biddingo L opportunities) \<le> 30"
    using keep_relevant_length [of L "take 30 opportunities"]
    by (simp add: scan_biddingo_def)
  moreover have "length (scan_bcbid L trs) \<le> 30"
    using keep_relevant_length [of L "take 30 (drop 1 trs)"]
    by (simp add: scan_bcbid_def)
  moreover have "length (scan_alberta_purchasing L page) \<le> 30"
  proof (cases page)
    case (Fetched content)
    show ?thesis
    proof (cases content)
      case None
      with Fetched show ?thesis by (simp add: scan_alberta_purchasing_def)
    next
      case (Some rows)
      with Fetched alberta_rows_length [of L "take 30 (drop 1 rows)"]
      show ?thesis by (simp add: scan_alberta_purchasing_def)
    qed
  qed (simp_all add: scan_alberta_purchasing_def)
  moreover have "length (scan_saskatchewan_tenders sask_page) \<le> 30"
    by (simp add: scan_saskatchewan_tenders_def collect_take split: fetch.splits)
  moreover have "length (scan_manitoba_tenders manitoba_response) \<le> 30"
    by (simp add: scan_manitoba_tenders_def collect_take split: fetch.splits)
  moreover have "length (scan_ontario_tenders ontario_page) \<le> 30"
    by (simp add: scan_ontario_tenders_def collect_take split: fetch.splits)
  moreover have "length (scan_ns_tenders ns_page) \<le> 30"
    by (simp add: scan_ns_tenders_def collect_take split: fetch.splits option.splits)
  moreover have "length (scan_ottawa_bids ottawa_page) \<le> 30"
    by (simp add: scan_ottawa_bids_def collect_take split: fetch.splits)
  moreover have "length (scan_edmonton_bids edmonton_page) \<le> 30"
    by (simp add: scan_edmonton_bids_def collect_take split: fetch.splits)
  moreover have "length (scan_calgary_procurement calgary_page) \<le> 30"
    by (simp add: scan_calgary_procurement_def collect_take split: fetch.splits)
  moreover have "length (scan_winnipeg_bids winnipeg_response) \<le> 30"
    by (simp add: scan_winnipeg_bids_def collect_take split: fetch.splits option.splits)
  moreover have "length (scan_vancouver_procurement vancouver_page) \<le> 30"
    by (simp add: scan_vancouver_procurement_def collect_take split: fetch.splits option.splits)
  moreover have "length (scan_halifax_procurement halifax_page) \<le> 30"
    by (simp add: scan_halifax_procurement_def collect_take split: fetch.splits)
  moreover have "length (scan_regina_procurement regina_page) \<le> 30"
    by (simp add: scan_regina_procurement_def collect_take split: fetch.splits)
  moreover have "length (scan_nbon_newbrunswick nbon_page) \<le> 30"
    by (simp add: scan_nbon_newbrunswick_def collect_take split: fetch.splits)
  moreover have "length (scan_pei_tenders pei_response) \<le> 30"
    by (simp add: scan_pei_tenders_def collect_take split: fetch.splits)
  moreover have "length (scan_nl_procurement nl_response) \<le> 30"
    by (simp add: scan_nl_procurement_def collect_take split: fetch.splits option.splits)
  moreover have "length (scan_buybc_health buybc_page) \<le> 30"
    by (simp add: scan_buybc_health_def collect_take split: fetch.splits)
  moreover have "length (scan_ontario_health mohltc_page) \<le> 20"
    by (simp add: scan_ontario_health_def collect_take split: fetch.splits)
  moreover have "scan_merx L pages = scan_merx L (take 5 pages)"
    using merx_pages_take [of L 0 pages] by (simp add: scan_merx_def)
  moreover have "scan_seao L pages = scan_seao L (take 3 pages)"
    using seao_pages_take [of L 0 pages] by (simp add: scan_seao_def)
  ultimately show ?thesis by simp
qed

text \<open>
  The claim as stated fails: a CSV file with 31 relevant rows, or one MERX result page
  with 31 relevant opportunities, yields 31 records.
\<close>

theorem uncapped_scan_counterexample:
  "length (scan_canadabuys demo_lib
      [Fetched (replicate 31 (Some [(''tender_id'', PStr ''PW-24-001''),
                                    (''title'', PStr ''Leadership training''),
                                    (''description'', PStr [])])), BadStatus]) = 31
   \<and> length (scan_merx demo_lib
      [replicate 31 (Some [(''tender_id'', PStr ''PW-24-001''),
                           (''title'', PStr ''Leadership training''),
                           (''description'', PStr [])])]) = 31"
proof -
  let ?t = "[(''tender_id'', PStr ''PW-24-001''), (''title'', PStr ''Leadership training''),
             (''description'', PStr [])]"
  have rel: "is_training_related demo_lib ?t" by code_simp
  have "keep_relevant demo_lib (replicate 31 (Some ?t)) = replicate 31 ?t"
    by (rule keep_relevant_replicate [OF _ rel]) simp
  then show ?thesis by (simp add: scan_merx_def)
qed

section \<open>Properties of the orchestrator\<close>

lemma replace_first_length: "length (replace_first P r xs) = length xs"
  by (induction xs) auto

lemma save_length:
  "length (fst (save_tender_to_db L now db td)) = length db + (if snd (save_tender_to_db L now db td) then 1 else 0)"
  by (auto simp: save_tender_to_db_def Let_def commit_def replace_first_length
      split: option.splits sum.splits if_splits)

lemma save_no_tender_id:
  "\<not> truthy (dget td ''tender_id'' PNone) \<Longrightarrow> save_tender_to_db L now db td = (db, False)"
  by (simp add: save_tender_to_db_def)

lemma map_of_dset: "map_of (dset d k v) k' = (if k' = k then Some v else map_of d k')"
  by (induction d k v rule: dset.induct) auto

lemma dget_dset: "k' \<noteq> k \<Longrightarrow> dget (dset d k v) k' dflt = dget d k' dflt"
  by (simp add: dget_def map_of_dset)

lemma keys_dset: "fst ` set (dset d k v) = insert k (fst ` set d)"
  by (induction d k v rule: dset.induct) auto

lemma process_loop_counts:
  "process_loop M L now ts (db, pr, res) = (x, db', pr', res') \<Longrightarrow>
     found pr' = found pr \<and> by_portal res' = by_portal res \<and> errors res' = errors res \<and>
     scanned res' = scanned res \<and> total_found res' = total_found res \<and>
     (x = None \<longrightarrow>
        (\<exists>k \<le> length ts. length db' = length db + k \<and>
           new pr' = new pr + k \<and> updated pr' = updated pr + (length ts - k) \<and>
           new_tenders res' = new_tenders res + k \<and>
           updated_tenders res' = updated_tenders res + (length ts - k)))"
proof (induction ts arbitrary: db pr res)
  case Nil
  then show ?case by auto
next
  case (Cons td ts)
  show ?case
  proof (cases "match_courses M td")
    case (Inl e)
    with Cons.prems show ?thesis by auto
  next
    case (Inr courses)
    let ?td1 = "dset td ''matching_courses'' (PList courses)"
    show ?thesis
    proof (cases "calc_priority M ?td1")
      case (Inl e)
      with Inr Cons.prems show ?thesis by auto
    next
      case p: (Inr p)
      let ?td2 = "dset ?td1 ''priority'' (PStr p)"
      let ?s = "save_tender_to_db L now db ?td2"
      note len = save_length [of L now db ?td2]
      show ?thesis
      proof (cases "snd ?s")
        case True
        with Inr p Cons.prems
        have "process_loop M L now ts (fst ?s, pr\<lparr>new := new pr + 1\<rparr>, res\<lparr>new_tenders := new_tenders res + 1\<rparr>)
                = (x, db', pr', res')"
          by (simp add: Let_def)
        from Cons.IH [OF this] len True show ?thesis
          by (cases x) (auto intro: exI [of _ "Suc k" for k])
      next
        case False
        with Inr p Cons.prems
        have "process_loop M L now ts (fst ?s, pr\<lparr>updated := updated pr + 1\<rparr>,
                 res\<lparr>updated_tenders := updated_tenders res + 1\<rparr>)
                = (x, db', pr', res')"
          by (simp add: Let_def)
        from Cons.IH [OF this] len False show ?thesis
          by (cases x) (auto intro: exI [of _ k for k])
      qed
    qed
  qed
qed

lemma process_loop_ok:
  "matcher_ok M ts \<Longrightarrow> fst (process_loop M L now ts (db, pr, res)) = None"
proof (induction ts arbitrary: db pr res)
  case Nil
  then show ?case by simp
next
  case (Cons td ts)
  then show ?case
    by (auto simp: matcher_ok_def Let_def split: sum.splits)
qed

lemma process_loop_dropped:
  "matcher_ok M ts \<Longrightarrow> \<forall>td \<in> set ts. \<not> truthy (dget td ''tender_id'' PNone) \<Longrightarrow>
     process_loop M L now ts (db, pr, res) =
       (None, db, pr\<lparr>updated := updated pr + length ts\<rparr>,
        res\<lparr>updated_tenders := updated_tenders res + length ts\<rparr>)"
proof (induction ts arbitrary: pr res)
  case Nil
  then show ?case by simp
next
  case (Cons td ts)
  from Cons.prems obtain courses p where c: "match_courses M td = Inr courses"
    and p: "calc_priority M (dset td ''matching_courses'' (PList courses)) = Inr p"
    by (auto simp: matcher_ok_def split: sum.splits)
  have "\<not> truthy (dget (dset (dset td ''matching_courses'' (PList courses)) ''priority'' (PStr p))
            ''tender_id'' PNone)"
    using Cons.prems by (simp add: dget_dset)
  from save_no_tender_id [OF this]
  have s: "save_tender_to_db L now db
      (dset (dset td ''matching_courses'' (PList courses)) ''priority'' (PStr p)) = (db, False)" .
  from Cons.prems have "matcher_ok M ts" "\<forall>td \<in> set ts. \<not> truthy (dget td ''tender_id'' PNone)"
    by (auto simp: matcher_ok_def)
  from Cons.IH [OF this] c p s show ?case by (simp add: Let_def)
qed




lemma process_tenders_keeps:
  "errors (snd (process_tenders M L now ts p st)) = errors (snd st) \<and>
   scanned (snd (process_tenders M L now ts p st)) = scanned (snd st) \<and>
   fst ` set (by_portal (snd st)) \<subseteq> fst ` set (by_portal (snd (process_tenders M L now ts p st))) \<and>
   (\<forall>q. q \<noteq> p \<longrightarrow> map_of (by_portal (snd (process_tenders M L now ts p st))) q
                      = map_of (by_portal (snd st)) q)"
proof (cases "ts = []")
  case True
  then show ?thesis by (simp add: process_tenders_def)
next
  case False
  obtain db res where st: "st = (db, res)" by (cases st)
  let ?pr = "(case map_of (by_portal res) p of None \<Rightarrow> \<lparr>found = 0, new = 0, updated = 0\<rparr> | Some pr \<Rightarrow> pr)
      \<lparr>found := found (case map_of (by_portal res) p of None \<Rightarrow> \<lparr>found = 0, new = 0, updated = 0\<rparr> | Some pr \<Rightarrow> pr)
         + length ts\<rparr>"
  obtain x db' pr' res' where r: "process_loop M L now ts (db, ?pr, res) = (x, db', pr', res')"
    by (cases "process_loop M L now ts (db, ?pr, res)") auto
  from process_loop_counts [OF r]
  have same: "by_portal res' = by_portal res" "errors res' = errors res" "scanned res' = scanned res"
    by simp_all
  from False r same st show ?thesis
    by (cases x; cases "map_of (by_portal res) p")
       (auto simp: process_tenders_def Let_def map_of_dset keys_dset)
qed

lemma process_tenders_counts:
  assumes "ts \<noteq> []" and "matcher_ok M ts"
  shows "\<exists>e k. k \<le> length ts \<and>
     length (fst (process_tenders M L now ts p (db, res))) = length db + k \<and>
     map_of (by_portal (snd (process_tenders M L now ts p (db, res)))) p = Some e \<and>
     found e = found (case map_of (by_portal res) p of None \<Rightarrow> \<lparr>found = 0, new = 0, updated = 0\<rparr> | Some pr \<Rightarrow> pr) + length ts \<and>
     new e = new (case map_of (by_portal res) p of None \<Rightarrow> \<lparr>found = 0, new = 0, updated = 0\<rparr> | Some pr \<Rightarrow> pr) + k \<and>
     updated e = updated (case map_of (by_portal res) p of None \<Rightarrow> \<lparr>found = 0, new = 0, updated = 0\<rparr> | Some pr \<Rightarrow> pr) + (length ts - k) \<and>
     total_found (snd (process_tenders M L now ts p (db, res))) = total_found res + length ts \<and>
     new_tenders (snd (process_tenders M L now ts p (db, res))) = new_tenders res + k \<and>
     updated_tenders (snd (process_tenders M L now ts p (db, res))) = updated_tenders res + (length ts - k)"
proof -
  let ?e0 = "case map_of (by_portal res) p of None \<Rightarrow> \<lparr>found = 0, new = 0, updated = 0\<rparr> | Some pr \<Rightarrow> pr"
  let ?pr = "?e0\<lparr>found := found ?e0 + length ts\<rparr>"
  obtain x db' pr' res' where r: "process_loop M L now ts (db, ?pr, res) = (x, db', pr', res')"
    by (cases "process_loop M L now ts (db, ?pr, res)") auto
  from process_loop_ok [OF assms(2), where L = L and now = now and db = db and pr = ?pr and res = res] r
  have x: "x = None" by simp
  from process_loop_counts [OF r] x obtain k where k: "k \<le> length ts" "length db' = length db + k"
    "new pr' = new ?pr + k" "updated pr' = updated ?pr + (length ts - k)"
    "new_tenders res' = new_tenders res + k" "updated_tenders res' = updated_tenders res + (length ts - k)"
    "found pr' = found ?pr" "total_found res' = total_found res"
    by auto
  have pt: "process_tenders M L now ts p (db, res) =
      (db', res'\<lparr>total_found := total_found res' + length ts, by_portal := dset (by_portal res') p pr'\<rparr>)"
    using assms(1) r x by (simp add: process_tenders_def Let_def)
  show ?thesis
    apply (rule exI [of _ pr'])
    apply (rule exI [of _ k])
    using k pt by (simp add: map_of_dset)
qed



lemma execute_scans_async_step:
  "execute_scans_async M L now ((pid, out) # items) st =
     (if \<not> runnable pid then execute_scans_async M L now items st
      else case out of
        Inl e \<Rightarrow> execute_scans_async M L now items
                  (fst st, (snd st)\<lparr>errors := errors (snd st) @ [(name_of pid, e)]\<rparr>)
      | Inr tenders \<Rightarrow>
          (let st' = (if tenders \<noteq> [] then process_tenders M L now tenders (name_of pid) st else st)
           in execute_scans_async M L now items (fst st', (snd st')\<lparr>scanned := scanned (snd st') @ [pid]\<rparr>)))"
  by (auto simp: runnable_def name_of_def Let_def split: option.splits sum.splits)

declare execute_scans_async.simps(2) [simp del]




lemma process_tenders_balanced:
  assumes "balanced (snd st) q" and "p = q \<Longrightarrow> matcher_ok M ts"
  shows "balanced (snd (process_tenders M L now ts p st)) q"
proof (cases "p = q")
  case False
  with assms(1) process_tenders_keeps [where M = M and L = L and now = now and ts = ts and p = p and st = st]
  show ?thesis by (simp add: balanced_def)
next
  case True
  show ?thesis
  proof (cases "ts = []")
    case True
    with assms(1) show ?thesis by (simp add: process_tenders_def)
  next
    case False
    obtain db res where st: "st = (db, res)" by (cases st)
    let ?e0 = "case map_of (by_portal res) p of None \<Rightarrow> \<lparr>found = 0, new = 0, updated = 0\<rparr> | Some pr \<Rightarrow> pr"
    have e0: "found ?e0 = new ?e0 + updated ?e0"
      using assms(1) st \<open>p = q\<close> by (auto simp: balanced_def split: option.splits)
    from process_tenders_counts [OF False assms(2) [OF \<open>p = q\<close>], where L = L and now = now and p = p
        and db = db and res = res]
    obtain e k where "k \<le> length ts" "map_of (by_portal (snd (process_tenders M L now ts p (db, res)))) p = Some e"
      "found e = found ?e0 + length ts" "new e = new ?e0 + k" "updated e = updated ?e0 + (length ts - k)"
      by blast
    with e0 st \<open>p = q\<close> show ?thesis by (simp add: balanced_def)
  qed
qed

lemma execute_scans_async_balanced:
  assumes "\<forall>(pid, out) \<in> set items. runnable pid \<and> name_of pid = q \<longrightarrow>
             (case out of Inl e \<Rightarrow> True | Inr ts \<Rightarrow> matcher_ok M ts)"
    and "balanced (snd st) q"
  shows "balanced (snd (execute_scans_async M L now items st)) q"
  using assms
proof (induction items arbitrary: st)
  case Nil
  then show ?case by simp
next
  case (Cons item items)
  obtain pid out where item: "item = (pid, out)" by (cases item)
  from Cons.prems(1) have rest: "\<forall>(pid, out) \<in> set items. runnable pid \<and> name_of pid = q \<longrightarrow>
             (case out of Inl e \<Rightarrow> True | Inr ts \<Rightarrow> matcher_ok M ts)"
    by simp
  show ?case
  proof (cases "runnable pid")
    case False
    with item Cons.IH [OF rest Cons.prems(2)] show ?thesis by (simp add: execute_scans_async_step)
  next
    case True
    show ?thesis
    proof (cases out)
      case (Inl e)
      have "balanced (snd (fst st, (snd st)\<lparr>errors := errors (snd st) @ [(name_of pid, e)]\<rparr>)) q"
        using Cons.prems(2) by (simp add: balanced_def)
      from Cons.IH [OF rest this] item True Inl show ?thesis by (simp add: execute_scans_async_step)
    next
      case (Inr ts)
      let ?st' = "if ts \<noteq> [] then process_tenders M L now ts (name_of pid) st else st"
      have ok: "name_of pid = q \<Longrightarrow> matcher_ok M ts"
        using Cons.prems(1) item True Inr by simp
      have "balanced (snd (process_tenders M L now ts (name_of pid) st)) q"
        by (rule process_tenders_balanced [OF Cons.prems(2)]) (rule ok)
      then have "balanced (snd ?st') q"
        using Cons.prems(2) by simp
      then have "balanced (snd (fst ?st', (snd ?st')\<lparr>scanned := scanned (snd ?st') @ [pid]\<rparr>)) q"
        by (simp add: balanced_def)
      from Cons.IH [OF rest this] item True Inr show ?thesis
        by (simp add: execute_scans_async_step Let_def)
    qed
  qed
qed

text \<open>
  C10. In the run report, every record processed for a portal increments exactly one of
  the counters new and updated. When the loop of \<^verbatim>\<open>_process_tenders\<close> completes for
  a non-empty list of records, the portal's entry has found raised by the number of
  records, new raised by the number \<open>k\<close> of rows inserted into the table and updated
  raised by the number of all other records, and the totals of the report move the same
  way. Records dropped for an empty or missing tender id insert nothing and all count as
  updated. Consequently, in the report of a batch started on an empty report, the entry
  of every portal whose processing was never interrupted by an exception has
  found = new + updated.
\<close>

theorem report_counters:
  "(tenders \<noteq> [] \<and> matcher_ok M tenders \<longrightarrow>
      (\<exists>e k. k \<le> length tenders
         \<and> length (fst (process_tenders M L now tenders p (db, res))) = length db + k
         \<and> map_of (by_portal (snd (process_tenders M L now tenders p (db, res)))) p = Some e
         \<and> found e = found (case map_of (by_portal res) p of
                              None \<Rightarrow> \<lparr>found = 0, new = 0, updated = 0\<rparr> | Some pr \<Rightarrow> pr)
                      + length tenders
         \<and> new e = new (case map_of (by_portal res) p of
                          None \<Rightarrow> \<lparr>found = 0, new = 0, updated = 0\<rparr> | Some pr \<Rightarrow> pr) + k
         \<and> updated e = updated (case map_of (by_portal res) p of
                                  None \<Rightarrow> \<lparr>found = 0, new = 0, updated = 0\<rparr> | Some pr \<Rightarrow> pr)
                        + (length tenders - k)
         \<and> new_tenders (snd (process_tenders M L now tenders p (db, res))) = new_tenders res + k
         \<and> updated_tenders (snd (process_tenders M L now tenders p (db, res)))
             = updated_tenders res + (length tenders - k)))
   \<and> (matcher_ok M tenders \<and> (\<forall>td \<in> set tenders. \<not> truthy (dget td ''tender_id'' PNone)) \<longrightarrow>
        process_loop M L now tenders (db, pr, res) =
          (None, db, pr\<lparr>updated := updated pr + length tenders\<rparr>,
           res\<lparr>updated_tenders := updated_tenders res + length tenders\<rparr>))
   \<and> ((\<forall>(pid, out) \<in> set items. runnable pid \<and> name_of pid = q \<longrightarrow>
             (case out of Inl e \<Rightarrow> True | Inr ts \<Rightarrow> matcher_ok M ts)) \<longrightarrow>
        (\<forall>e. map_of (by_portal (snd (execute_scans_async M L now items (db, empty_results)))) q = Some e \<longrightarrow>
             found e = new e + updated e))"
proof -
  have a: "balanced (snd (db, empty_results)) q"
    by (simp add: balanced_def empty_results_def)
  have "(\<forall>(pid, out) \<in> set items. runnable pid \<and> name_of pid = q \<longrightarrow>
             (case out of Inl e \<Rightarrow> True | Inr ts \<Rightarrow> matcher_ok M ts)) \<longrightarrow>
        (\<forall>e. map_of (by_portal (snd (execute_scans_async M L now items (db, empty_results)))) q = Some e \<longrightarrow>
             found e = new e + updated e)"
    using execute_scans_async_balanced [OF _ a, where M = M and L = L and now = now and items = items]
    by (auto simp: balanced_def)
  moreover have "tenders \<noteq> [] \<and> matcher_ok M tenders \<longrightarrow>
      (\<exists>e k. k \<le> length tenders
         \<and> length (fst (process_tenders M L now tenders p (db, res))) = length db + k
         \<and> map_of (by_portal (snd (process_tenders M L now tenders p (db, res)))) p = Some e
         \<and> found e = found (case map_of (by_portal res) p of
                              None \<Rightarrow> \<lparr>found = 0, new = 0, updated = 0\<rparr> | Some pr \<Rightarrow> pr)
                      + length tenders
         \<and> new e = new (case map_of (by_portal res) p of
                          None \<Rightarrow> \<lparr>found = 0, new = 0, updated = 0\<rparr> | Some pr \<Rightarrow> pr) + k
         \<and> updated e = updated (case map_of (by_portal res) p of
                                  None \<Rightarrow> \<lparr>found = 0, new = 0, updated = 0\<rparr> | Some pr \<Rightarrow> pr)
                        + (length tenders - k)
         \<and> new_tenders (snd (process_tenders M L now tenders p (db, res))) = new_tenders res + k
         \<and> updated_tenders (snd (process_tenders M L now tenders p (db, res)))
             = updated_tenders res + (length tenders - k))"
    using process_tenders_counts [where ts = tenders and M = M and L = L and now = now and p = p
        and db = db and res = res]
    by blast
  moreover have "matcher_ok M tenders \<and> (\<forall>td \<in> set tenders. \<not> truthy (dget td ''tender_id'' PNone)) \<longrightarrow>
        process_loop M L now tenders (db, pr, res) =
          (None, db, pr\<lparr>updated := updated pr + length tenders\<rparr>,
           res\<lparr>updated_tenders := updated_tenders res + length tenders\<rparr>)"
    using process_loop_dropped by blast
  ultimately show ?thesis by blast
qed

theorem report_counters_witness:
  "map_of (by_portal (snd (execute_scans_async demo_matcher demo_lib 0
        [(''manitoba'', Inr [[(''tender_id'', PStr ''MB-1''), (''title'', PStr ''Leadership training'')],
                             [(''tender_id'', PStr []), (''title'', PStr ''Coaching'')],
                             [(''tender_id'', PStr ''MB-1''), (''title'', PStr ''Leadership training'')]])]
        ([], empty_results)))) ''Manitoba Tenders''
     = Some \<lparr>found = 3, new = 1, updated = 2\<rparr>
   \<and> found (the (map_of (by_portal (snd (execute_scans_async demo_matcher demo_lib 0
        [(''manitoba'', Inr [[(''tender_id'', PStr ''MB-1''), (''title'', PStr ''Leadership training'')],
                             [(''tender_id'', PStr []), (''title'', PStr ''Coaching'')],
                             [(''tender_id'', PStr ''MB-1''), (''title'', PStr ''Leadership training'')]])]
        ([], empty_results)))) ''Manitoba Tenders''))
     = new (the (map_of (by_portal (snd (execute_scans_async demo_matcher demo_lib 0
        [(''manitoba'', Inr [[(''tender_id'', PStr ''MB-1''), (''title'', PStr ''Leadership training'')],
                             [(''tender_id'', PStr []), (''title'', PStr ''Coaching'')],
                             [(''tender_id'', PStr ''MB-1''), (''title'', PStr ''Leadership training'')]])]
        ([], empty_results)))) ''Manitoba Tenders''))
       + updated (the (map_of (by_portal (snd (execute_scans_async demo_matcher demo_lib 0
        [(''manitoba'', Inr [[(''tender_id'', PStr ''MB-1''), (''title'', PStr ''Leadership training'')],
                             [(''tender_id'', PStr []), (''title'', PStr ''Coaching'')],
                             [(''tender_id'', PStr ''MB-1''), (''title'', PStr ''Leadership training'')]])]
        ([], empty_results)))) ''Manitoba Tenders''))"
proof -
  let ?ts = "[[(''tender_id'', PStr ''MB-1''), (''title'', PStr ''Leadership training'')],
              [(''tender_id'', PStr []), (''title'', PStr ''Coaching'')],
              [(''tender_id'', PStr ''MB-1''), (''title'', PStr ''Leadership training'')]]"
  let ?items = "[(''manitoba'', Inr ?ts)]"
  let ?R = "snd (execute_scans_async demo_matcher demo_lib 0 ?items ([], empty_results))"
  have ev: "map_of (by_portal ?R) ''Manitoba Tenders'' = Some \<lparr>found = 3, new = 1, updated = 2\<rparr>"
    by code_simp
  have ok: "matcher_ok demo_matcher ?ts"
    by (simp add: matcher_ok_def demo_matcher_def calculate_priority_def dget_def)
  then have hyp: "\<forall>(pid, out) \<in> set ?items. runnable pid \<and> name_of pid = ''Manitoba Tenders'' \<longrightarrow>
      (case out of Inl e \<Rightarrow> True | Inr ts \<Rightarrow> matcher_ok demo_matcher ts)"
    by simp
  from report_counters [where M = demo_matcher and L = demo_lib and now = 0 and items = ?items
      and db = "[]" and q = "''Manitoba Tenders''"] hyp ev
  have "found \<lparr>found = 3, new = 1, updated = 2\<rparr>
      = new \<lparr>found = 3, new = 1, updated = 2\<rparr> + updated \<lparr>found = 3, new = 1, updated = 2\<rparr>"
    by blast
  with ev show ?thesis by simp
qed















end
